theory Spec2Isabelle
  imports Main
begin

section \<open>Data model of the extraction pipeline\<close>

text \<open>
  The extraction scripts exchange Python dictionaries decoded from the JSON the LLM was asked
  to emit. An entity has the keys \<open>id\<close>, \<open>type\<close>, \<open>name\<close> and \<open>properties\<close>, a relationship
  the keys \<open>source\<close>, \<open>target\<close>, \<open>type\<close> and \<open>properties\<close>. Every access in the source is
  \<open>d.get(key)\<close>, so an absent key reads as Python's \<open>None\<close>: a field is a
  \<open>string option\<close>, with \<open>None\<close> for an absent key. A per-chunk result
  has the keys \<open>entities\<close> and \<open>relationships\<close>, read with \<open>get(key, [])\<close>: an absent
  key is the empty list.
\<close>

record entity =
  e_id :: "string option"
  e_type :: "string option"
  e_name :: "string option"
  e_properties :: "(string \<times> string) list"

record relationship =
  r_source :: "string option"
  r_target :: "string option"
  r_type :: "string option"
  r_properties :: "(string \<times> string) list"

record extraction_result =
  entities :: "entity list"
  relationships :: "relationship list"

section \<open>The merger: \<open>merge_extracted_data\<close>\<close>

text \<open>
  The same function in \<^verbatim>\<open>cyber-poc_2-langchain-document-to-graph-adaptive.py\<close> and in
  \<^verbatim>\<open>neo4j_2b.i-langchain-document-to-graph-parallel.py\<close>. The loop state of the first
  pair of nested loops is the list \<open>merged_data["entities"]\<close> and the set \<open>entity_ids\<close>.
\<close>

fun merge_entities_chunk ::
  "entity list \<Rightarrow> entity list \<times> string option set \<Rightarrow> entity list \<times> string option set" where
  "merge_entities_chunk [] st = st"
| "merge_entities_chunk (e # es) (merged, entity_ids) =
     (if e_id e \<notin> entity_ids
      then merge_entities_chunk es (merged @ [e], insert (e_id e) entity_ids)
      else merge_entities_chunk es (merged, entity_ids))"

fun merge_entities ::
  "extraction_result list \<Rightarrow> entity list \<times> string option set \<Rightarrow> entity list \<times> string option set" where
  "merge_entities [] st = st"
| "merge_entities (d # ds) st = merge_entities ds (merge_entities_chunk (entities d) st)"

text \<open>
  \<open>f"{source}-{rel_type}-{target}"\<close>: an f-string renders a string as itself and
  \<open>None\<close> as the four characters \<open>None\<close>.
\<close>

fun py_format :: "string option \<Rightarrow> string" where
  "py_format None = ''None''"
| "py_format (Some s) = s"

definition rel_key :: "relationship \<Rightarrow> string" where
  "rel_key r = py_format (r_source r) @ ''-'' @ py_format (r_type r) @ ''-'' @ py_format (r_target r)"

fun merge_relationships_chunk ::
  "relationship list \<Rightarrow> relationship list \<times> string set \<Rightarrow> relationship list \<times> string set" where
  "merge_relationships_chunk [] st = st"
| "merge_relationships_chunk (r # rs) (merged, processed_relationships) =
     (if rel_key r \<notin> processed_relationships
      then merge_relationships_chunk rs (merged @ [r], insert (rel_key r) processed_relationships)
      else merge_relationships_chunk rs (merged, processed_relationships))"

fun merge_relationships ::
  "extraction_result list \<Rightarrow> relationship list \<times> string set \<Rightarrow> relationship list \<times> string set" where
  "merge_relationships [] st = st"
| "merge_relationships (d # ds) st =
     merge_relationships ds (merge_relationships_chunk (relationships d) st)"

definition merge_extracted_data :: "extraction_result list \<Rightarrow> extraction_result" where
  "merge_extracted_data data_list =
     \<lparr>entities = fst (merge_entities data_list ([], {})),
      relationships = fst (merge_relationships data_list ([], {}))\<rparr>"

text \<open>The triple of a relationship the data model speaks of.\<close>

definition triple :: "relationship \<Rightarrow> string option \<times> string option \<times> string option" where
  "triple r = (r_source r, r_type r, r_target r)"

subsection \<open>The invariant of a first-occurrence loop\<close>

text \<open>
  Both loops are instances of one scheme: append an item when its key is new. The
  invariant relates the loop state to the list of items processed so far.
\<close>

definition first_inv :: "('a \<Rightarrow> 'k) \<Rightarrow> 'a list \<Rightarrow> 'a list \<times> 'k set \<Rightarrow> bool" where
  "first_inv key seen st \<longleftrightarrow>
     snd st = key ` set seen \<and>
     distinct (map key (fst st)) \<and>
     key ` set (fst st) = key ` set seen \<and>
     (\<forall>x \<in> set (fst st). find (\<lambda>y. key y = key x) seen = Some x)"

section \<open>Collecting the per-chunk results\<close>

text \<open>
  \<open>process_chunk\<close> returns the extracted dictionary when it holds at least one entity or
  relationship, and \<open>None\<close> otherwise: a chunk result is an \<open>extraction_result option\<close>,
  and the test \<open>if result:\<close> of the callers is the test for \<open>Some\<close>. A completion is the
  pair \<open>(idx, result)\<close> a worker hands back; the order of a list of completions is the
  order in which the workers finish.
\<close>

type_synonym completion = "nat \<times> extraction_result option"

text \<open>
  Adaptive script, \<open>update_progress\<close>: \<open>if result: results[idx] = result\<close>, into the list
  \<open>results = [None] * len(chunks)\<close>. An index outside the list raises IndexError inside the
  callback, which logs it and leaves \<open>results\<close> as it was; \<open>list_update\<close> does the same.
\<close>

fun update_progress :: "extraction_result option list \<Rightarrow> completion \<Rightarrow> extraction_result option list" where
  "update_progress results (idx, None) = results"
| "update_progress results (idx, Some result) = results[idx := Some result]"

definition collect_slots :: "nat \<Rightarrow> completion list \<Rightarrow> extraction_result list" where
  "collect_slots n completions =
     List.map_filter id (foldl update_progress (replicate n None) completions)"

text \<open>
  Parallel script \<^verbatim>\<open>neo4j_2b.i\<close>: \<open>for future in as_completed(...)\<close> appends every
  non-empty result to \<open>all_extracted_data\<close> in the order of completion.
\<close>

definition collect_as_completed :: "completion list \<Rightarrow> extraction_result list" where
  "collect_as_completed completions = List.map_filter snd completions"

section \<open>Python exceptions, strings and dictionaries\<close>

text \<open>Python exceptions that the modelled code can meet.\<close>

datatype py_exception =
  UnboundLocalError | TypeError | AttributeError | KeyError | EOFError
  | QueryError | ConnectionError | LLMError | OSError | KeyboardInterrupt

text \<open>
  \<open>except Exception\<close> catches all of them but KeyboardInterrupt, which derives from
  BaseException only.
\<close>

fun is_Exception :: "py_exception \<Rightarrow> bool" where
  "is_Exception KeyboardInterrupt = False"
| "is_Exception e = True"

text \<open>\<open>d.get(key, default)\<close> on a field that is \<open>None\<close> when the key is absent.\<close>

fun get_or :: "'a option \<Rightarrow> 'a \<Rightarrow> 'a" where
  "get_or None d = d"
| "get_or (Some v) d = v"

text \<open>
  Character classes of \<open>str.isalnum\<close>, \<open>str.upper\<close> and \<open>str.lower\<close> on ASCII text; a
  character outside ASCII is left alone and is not alphanumeric here.
\<close>

definition ascii_upper :: string where
  "ascii_upper = ''ABCDEFGHIJKLMNOPQRSTUVWXYZ''"

definition ascii_lower :: string where
  "ascii_lower = ''abcdefghijklmnopqrstuvwxyz''"

definition isalnum :: "char \<Rightarrow> bool" where
  "isalnum c \<longleftrightarrow> c \<in> set (ascii_upper @ ascii_lower @ ''0123456789'')"

definition upper_char :: "char \<Rightarrow> char" where
  "upper_char c = get_or (map_of (zip ascii_lower ascii_upper) c) c"

definition lower_char :: "char \<Rightarrow> char" where
  "lower_char c = get_or (map_of (zip ascii_upper ascii_lower) c) c"

definition upper :: "string \<Rightarrow> string" where
  "upper s = map upper_char s"

definition lower :: "string \<Rightarrow> string" where
  "lower s = map lower_char s"

text \<open>\<open>d[k] = v\<close> on a dictionary kept in insertion order.\<close>

fun dict_set :: "'k \<Rightarrow> 'v \<Rightarrow> ('k \<times> 'v) list \<Rightarrow> ('k \<times> 'v) list" where
  "dict_set k v [] = [(k, v)]"
| "dict_set k v ((k', v') # d) = (if k' = k then (k, v) # d else (k', v') # dict_set k v d)"


text \<open>
  A value decoded from JSON. A dictionary is the association list of its entries in
  insertion order, with no key twice. Numbers are kept as integers.
\<close>

datatype json =
  JNull | JBool bool | JNum int | JStr string | JArr "json list" | JObj "(string \<times> json) list"



text \<open>The truth value Python gives a value in \<open>if v\<close> and \<open>not v\<close>.\<close>

fun truthy :: "json \<Rightarrow> bool" where
  "truthy JNull = False"
| "truthy (JBool b) = b"
| "truthy (JNum n) = (n \<noteq> 0)"
| "truthy (JStr s) = (s \<noteq> [])"
| "truthy (JArr xs) = (xs \<noteq> [])"
| "truthy (JObj kvs) = (kvs \<noteq> [])"

text \<open>
  \<open>data.get(key, default)\<close> and \<open>len(v)\<close> on decoded values: \<open>get\<close> exists on
  dictionaries only, \<open>len\<close> on lists, strings and dictionaries.
\<close>

fun py_get :: "json \<Rightarrow> string \<Rightarrow> json \<Rightarrow> py_exception + json" where
  "py_get (JObj kvs) k d = Inr (get_or (map_of kvs k) d)"
| "py_get v k d = Inl AttributeError"

fun py_len :: "json \<Rightarrow> py_exception + nat" where
  "py_len (JArr xs) = Inr (length xs)"
| "py_len (JStr s) = Inr (length s)"
| "py_len (JObj kvs) = Inr (length kvs)"
| "py_len v = Inl TypeError"

text \<open>
  The entries of a dictionary, for code that calls a method of \<open>dict\<close> on a value:
  any other value has no such attribute.
\<close>

fun the_dict :: "json \<Rightarrow> py_exception + (string \<times> json) list" where
  "the_dict (JObj kvs) = Inr kvs"
| "the_dict v = Inl AttributeError"

text \<open>
  The items a \<open>for\<close> loop (or \<open>enumerate\<close>, or a generator) draws from a value: the
  elements of a list, the characters of a string, the keys of a dictionary; other values
  are not iterable.
\<close>

fun py_iter :: "json \<Rightarrow> py_exception + json list" where
  "py_iter (JArr xs) = Inr xs"
| "py_iter (JStr s) = Inr (map (\<lambda>c. JStr [c]) s)"
| "py_iter (JObj kvs) = Inr (map (\<lambda>kv. JStr (fst kv)) kvs)"
| "py_iter v = Inl TypeError"

text \<open>
  A value used as a dictionary key: lists and dictionaries are unhashable, and
  \<open>True\<close> and \<open>False\<close> are the keys \<open>1\<close> and \<open>0\<close>.
\<close>

fun dict_key :: "json \<Rightarrow> py_exception + json" where
  "dict_key (JArr xs) = Inl TypeError"
| "dict_key (JObj kvs) = Inl TypeError"
| "dict_key (JBool b) = Inr (JNum (if b then 1 else 0))"
| "dict_key v = Inr v"

text \<open>
  Python's \<open>==\<close> on decoded values: booleans are the numbers 1 and 0, lists are compared
  element by element, dictionaries entry by entry in any order.
\<close>

function py_eq :: "json \<Rightarrow> json \<Rightarrow> bool" where
  "py_eq JNull y = (y = JNull)"
| "py_eq (JBool b) y = (y = JBool b \<or> y = JNum (if b then 1 else 0))"
| "py_eq (JNum n) y = (y = JNum n \<or> (n = 1 \<and> y = JBool True) \<or> (n = 0 \<and> y = JBool False))"
| "py_eq (JStr s) y = (y = JStr s)"
| "py_eq (JArr xs) y =
     (case y of
        JArr ys \<Rightarrow> length xs = length ys \<and> (\<forall>i < length xs. py_eq (xs ! i) (ys ! i))
      | _ \<Rightarrow> False)"
| "py_eq (JObj kvs) y =
     (case y of
        JObj kvs' \<Rightarrow>
          length kvs = length kvs' \<and>
          (\<forall>kv \<in> set kvs.
             case map_of kvs' (fst kv) of None \<Rightarrow> False | Some v' \<Rightarrow> py_eq (snd kv) v')
      | _ \<Rightarrow> False)"
  by pat_completeness auto

termination py_eq
proof (relation "measure (\<lambda>(x, y). size x)")
  show "wf (measure (\<lambda>(x, y). size x))" by simp
next
  fix xs :: "json list" and y ys and i :: nat
  assume "i < length xs"
  then have "xs ! i \<in> set xs" by simp
  then have "size (xs ! i) \<le> size_list size xs"
    by (rule size_list_estimation') simp
  then show "((xs ! i, ys ! i), JArr xs, y) \<in> measure (\<lambda>(x, y). size x)" by simp
next
  fix kvs :: "(string \<times> json) list" and y kvs' kv v'
  assume "kv \<in> set kvs"
  then have "size_prod (\<lambda>x. 0) size kv \<le> size_list (size_prod (\<lambda>x. 0) size) kvs"
    by (rule size_list_estimation') simp
  then show "((snd kv, v'), JObj kvs, y) \<in> measure (\<lambda>(x, y). size x)"
    by (cases kv) simp
qed

text \<open>
  The dictionaries of the extraction schema as decoded values: an absent key is left out.
\<close>

fun entry :: "string \<Rightarrow> string option \<Rightarrow> (string \<times> json) list" where
  "entry k None = []"
| "entry k (Some s) = [(k, JStr s)]"

definition entity_json :: "entity \<Rightarrow> json" where
  "entity_json e =
     JObj (entry ''id'' (e_id e) @ entry ''type'' (e_type e) @ entry ''name'' (e_name e) @
           [(''properties'', JObj (map (\<lambda>kv. (fst kv, JStr (snd kv))) (e_properties e)))])"

definition relationship_json :: "relationship \<Rightarrow> json" where
  "relationship_json r =
     JObj (entry ''source'' (r_source r) @ entry ''target'' (r_target r) @ entry ''type'' (r_type r) @
           [(''properties'', JObj (map (\<lambda>kv. (fst kv, JStr (snd kv))) (r_properties r)))])"

definition result_json :: "extraction_result \<Rightarrow> json" where
  "result_json d =
     JObj [(''entities'', JArr (map entity_json (entities d))),
           (''relationships'', JArr (map relationship_json (relationships d)))]"

section \<open>The graph writer: \<open>build_graph\<close>\<close>

text \<open>
  \<open>build_graph\<close> is modelled on decoded values as they are: what it does with an item
  depends on whether a field is absent, null, a string or something else.

  The statements sent to the graph store. The Cypher text is fixed but for the label or
  relationship type spliced into it and the parameters, so a statement is the constructor
  with these: for an entity the label, the parameter \<open>id\<close> and the parameter
  \<open>properties\<close>; for a relationship the type, the parameters \<open>source_id\<close>,
  \<open>target_id\<close> and \<open>rel_properties\<close>, and whether the \<open>SET r += $rel_properties\<close>
  clause is present.
\<close>

datatype cypher =
  ClearAll
  | MergeEntity string json "(string \<times> json) list"
  | MergeRelationship string json json json bool
  | VerifyEntities
  | VerifyRelationships

text \<open>
  \<open>graph.query\<close> is the external store: from a store state and a statement it gives the
  next state and whether the call returned (\<open>True\<close>) or raised (\<open>False\<close>).
\<close>

type_synonym 'g graph_query = "'g \<Rightarrow> cypher \<Rightarrow> 'g \<times> bool"

datatype log_line =
  EntityError json
  | RelationshipError json json

record 'g writer_state =
  graph :: 'g
  issued :: "(cypher \<times> bool) list"
  printed :: "log_line list"

text \<open>
  \<open>"".join(c if c.isalnum() else "_" for c in entity_type)\<close>. The generator draws the
  items of \<open>entity_type\<close>, whatever it is; an item must have the method \<open>isalnum\<close>,
  which strings have. \<open>s.isalnum()\<close> holds for a non-empty string of letters and digits.
\<close>

definition str_isalnum :: "string \<Rightarrow> bool" where
  "str_isalnum s \<longleftrightarrow> s \<noteq> [] \<and> list_all isalnum s"

fun join_alnum :: "json list \<Rightarrow> py_exception + string" where
  "join_alnum [] = Inr []"
| "join_alnum (JStr c # cs) =
     (case join_alnum cs of
        Inl e \<Rightarrow> Inl e
      | Inr rest \<Rightarrow> Inr ((if str_isalnum c then c else ''_'') @ rest))"
| "join_alnum (c # cs) = Inl AttributeError"

definition entity_label :: "json \<Rightarrow> py_exception + string" where
  "entity_label entity_type =
     (case py_iter entity_type of Inl e \<Rightarrow> Inl e | Inr cs \<Rightarrow> join_alnum cs)"

text \<open>
  The statements of the loop body over the entities up to the \<open>try\<close>: none of them is
  guarded, so an exception here leaves \<open>build_graph\<close>. In order: the two \<open>get\<close> on the
  entity, \<open>entity.get("properties", {}).items()\<close>, and the label.
\<close>

definition entity_statement :: "json \<Rightarrow> py_exception + cypher" where
  "entity_statement entity =
     (case the_dict entity of
        Inl e \<Rightarrow> Inl e
      | Inr d \<Rightarrow>
          (case the_dict (get_or (map_of d ''properties'') (JObj [])) of
             Inl e \<Rightarrow> Inl e
           | Inr items \<Rightarrow>
               (let properties =
                      foldl (\<lambda>ps kv. dict_set (fst kv) (snd kv) ps)
                        [(''id'', get_or (map_of d ''id'') (JStr [])),
                         (''name'', get_or (map_of d ''name'') (JStr []))]
                        items
                in case entity_label (get_or (map_of d ''type'') (JStr ''Entity'')) of
                     Inl e \<Rightarrow> Inl e
                   | Inr entity_type \<Rightarrow>
                       Inr (MergeEntity entity_type
                              (get_or (map_of properties ''id'') (JStr [])) properties))))"

text \<open>
  The line printed when a statement fails: \<open>Error creating entity node {properties['id']}\<close>
  or \<open>Error creating relationship from {source_id} to {target_id}\<close>, with values that are
  parameters of the statement.
\<close>

definition error_line :: "cypher \<Rightarrow> log_line" where
  "error_line q = (case q of
       MergeEntity l i ps \<Rightarrow> EntityError i
     | MergeRelationship t s d ps b \<Rightarrow> RelationshipError s d
     | _ \<Rightarrow> EntityError (JStr []))"

text \<open>
  A loop that an exception leaves gives the exception and the state reached; the writes
  made before it stay made.
\<close>

fun build_entities ::
  "'g graph_query \<Rightarrow> json list \<Rightarrow> 'g writer_state \<Rightarrow>
   (py_exception \<times> 'g writer_state) + 'g writer_state" where
  "build_entities gq [] st = Inr st"
| "build_entities gq (entity # es) st =
     (case entity_statement entity of
        Inl e \<Rightarrow> Inl (e, st)
      | Inr q \<Rightarrow>
          (let (g', ok) = gq (graph st) q
           in build_entities gq es
                (st\<lparr>graph := g', issued := issued st @ [(q, ok)],
                    printed := (if ok then printed st else printed st @ [error_line q])\<rparr>)))"

text \<open>
  \<open>if not source_id or not target_id: continue\<close>, on \<open>rel.get("source", "")\<close> and
  \<open>rel.get("target", "")\<close>.
\<close>

definition missing_end :: "(string \<times> json) list \<Rightarrow> bool" where
  "missing_end rel \<longleftrightarrow>
     \<not> truthy (get_or (map_of rel ''source'') (JStr [])) \<or>
     \<not> truthy (get_or (map_of rel ''target'') (JStr []))"

text \<open>
  \<open>rel.get("type", "RELATED_TO").upper().replace(" ", "_")\<close>, then the join over its
  characters; only a string has \<open>upper\<close>.
\<close>

fun relationship_type :: "json \<Rightarrow> py_exception + string" where
  "relationship_type (JStr s) =
     Inr (map (\<lambda>c. if isalnum c \<or> c = CHR ''_'' then c else CHR ''_'')
            (map (\<lambda>c. if c = CHR '' '' then CHR ''_'' else c) (upper s)))"
| "relationship_type v = Inl AttributeError"

text \<open>
  The statements of the loop body over the relationships up to the \<open>try\<close>, none of them
  guarded: the result is \<open>None\<close> for a relationship that is skipped, the statement for
  one that is written, and an exception when one is raised.
\<close>

definition relationship_statement :: "json \<Rightarrow> py_exception + cypher option" where
  "relationship_statement rel =
     (case the_dict rel of
        Inl e \<Rightarrow> Inl e
      | Inr r \<Rightarrow>
          if missing_end r then Inr None
          else
            (case relationship_type (get_or (map_of r ''type'') (JStr ''RELATED_TO'')) of
               Inl e \<Rightarrow> Inl e
             | Inr rel_type \<Rightarrow>
                 (let rel_properties = get_or (map_of r ''properties'') (JObj [])
                  in Inr (Some (MergeRelationship rel_type
                                  (get_or (map_of r ''source'') (JStr []))
                                  (get_or (map_of r ''target'') (JStr []))
                                  rel_properties (truthy rel_properties))))))"

fun build_relationships ::
  "'g graph_query \<Rightarrow> json list \<Rightarrow> 'g writer_state \<Rightarrow>
   (py_exception \<times> 'g writer_state) + 'g writer_state" where
  "build_relationships gq [] st = Inr st"
| "build_relationships gq (rel # rels) st =
     (case relationship_statement rel of
        Inl e \<Rightarrow> Inl (e, st)
      | Inr None \<Rightarrow> build_relationships gq rels st
      | Inr (Some q) \<Rightarrow>
          (let (g', ok) = gq (graph st) q
           in build_relationships gq rels
                (st\<lparr>graph := g', issued := issued st @ [(q, ok)],
                    printed := (if ok then printed st else printed st @ [error_line q])\<rparr>)))"

text \<open>
  \<open>build_graph(graph, extracted_data, clear_existing)\<close>. The statement that clears the
  store is sent outside any \<open>try\<close>: when it raises, \<open>build_graph\<close> raises. The two
  loops run over \<open>extracted_data.get("entities", [])\<close> and
  \<open>extracted_data.get("relationships", [])\<close>.
\<close>

definition build_graph ::
  "'g graph_query \<Rightarrow> 'g \<Rightarrow> json \<Rightarrow> bool \<Rightarrow>
   (py_exception \<times> 'g writer_state) + 'g writer_state" where
  "build_graph gq g extracted_data clear_existing =
     (let st0 = \<lparr>graph = g, issued = [], printed = []\<rparr>;
          cleared =
            (if clear_existing
             then (let (g', ok) = gq g ClearAll;
                       st1 = st0\<lparr>graph := g', issued := [(ClearAll, ok)]\<rparr>
                   in if ok then Inr st1 else Inl (QueryError, st1))
             else Inr st0)
      in case cleared of
           Inl ex \<Rightarrow> Inl ex
         | Inr st \<Rightarrow>
             (case the_dict extracted_data of
                Inl e \<Rightarrow> Inl (e, st)
              | Inr d \<Rightarrow>
                  (case py_iter (get_or (map_of d ''entities'') (JArr [])) of
                     Inl e \<Rightarrow> Inl (e, st)
                   | Inr es \<Rightarrow>
                       (case build_entities gq es st of
                          Inl ex \<Rightarrow> Inl ex
                        | Inr st' \<Rightarrow>
                            (case py_iter (get_or (map_of d ''relationships'') (JArr [])) of
                               Inl e \<Rightarrow> Inl (e, st')
                             | Inr rs \<Rightarrow> build_relationships gq rs st')))))"




section \<open>The adaptive script: \<open>process_document_to_graph\<close> and its entry point\<close>

text \<open>
  What the function meets outside itself, one field for each external step: opening the
  log file (before the \<open>try\<close>), \<open>init_neo4j_graph()\<close>, \<open>load_extracted_data\<close>, the
  loading, chunking and extraction of the document (which yields \<open>all_extracted_data\<close>),
  and \<open>save_extracted_data\<close>. A step returns or raises.
\<close>

record document_env =
  log_open :: "py_exception option"
  connect :: "py_exception option"
  loaded :: "py_exception + extraction_result list"
  processed :: "py_exception + extraction_result list"
  saved :: "py_exception option"

text \<open>
  The local variables of the function that the stages after extraction use. A Python local
  is unbound until its first assignment, and reading it unbound raises UnboundLocalError
  (a NameError): \<open>merged_data\<close> is an option, \<open>None\<close> while unbound.
\<close>

record locals =
  all_extracted_data :: "extraction_result list"
  merged_data :: "extraction_result option"

definition read_local :: "'a option \<Rightarrow> py_exception + 'a" where
  "read_local v = (case v of None \<Rightarrow> Inl UnboundLocalError | Some x \<Rightarrow> Inr x)"

text \<open>
  From the connection to the optional save. No statement of this part assigns
  \<open>merged_data\<close>.
\<close>

definition extraction_stage :: "document_env \<Rightarrow> bool \<Rightarrow> bool \<Rightarrow> py_exception + locals" where
  "extraction_stage env load_data save_data =
     (case connect env of
        Some e \<Rightarrow> Inl e
      | None \<Rightarrow>
          (case (if load_data then loaded env else Inr []) of
             Inl e \<Rightarrow> Inl e
           | Inr data \<Rightarrow>
               if data \<noteq> [] then Inr \<lparr>all_extracted_data = data, merged_data = None\<rparr>
               else
                 (case processed env of
                    Inl e \<Rightarrow> Inl e
                  | Inr data' \<Rightarrow>
                      if save_data \<and> data' \<noteq> []
                      then (case saved env of
                              Some e \<Rightarrow> Inl e
                            | None \<Rightarrow> Inr \<lparr>all_extracted_data = data', merged_data = None\<rparr>)
                      else Inr \<lparr>all_extracted_data = data', merged_data = None\<rparr>)))"

text \<open>
  What a call leaves behind: the exception that leaves the function (if any), the exception
  its handler printed (if any), the value of \<open>merged_data\<close> at the end, and what was sent
  to the graph store.
\<close>

record 'g run =
  raised :: "py_exception option"
  error_printed :: "py_exception option"
  merged_at_end :: "extraction_result option"
  writer :: "'g writer_state"

text \<open>
  The statements after the extraction, in the order of the source: the emptiness test that
  reads \<open>merged_data\<close>, then the assignment \<open>merged_data = merge_extracted_data(...)\<close>,
  \<open>build_graph\<close> and the two verification queries. The result is the exception raised
  (if any), the value of \<open>merged_data\<close> and the writer state.
\<close>

definition post_extraction_stage ::
  "'g graph_query \<Rightarrow> 'g \<Rightarrow> locals \<Rightarrow> bool \<Rightarrow>
   py_exception option \<times> extraction_result option \<times> 'g writer_state" where
  "post_extraction_stage gq g vars clear_existing =
     (let st0 = \<lparr>graph = g, issued = [], printed = []\<rparr> in
      case read_local (merged_data vars) of
        Inl e \<Rightarrow> (Some e, merged_data vars, st0)
      | Inr md \<Rightarrow>
          if entities md = [] \<and> relationships md = [] then (None, merged_data vars, st0)
          else
            (let merged = merge_extracted_data (all_extracted_data vars) in
             case build_graph gq g (result_json merged) clear_existing of
               Inl (e, st) \<Rightarrow> (Some e, Some merged, st)
             | Inr st \<Rightarrow>
                 (let (g1, ok1) = gq (graph st) VerifyEntities;
                      st1 = st\<lparr>graph := g1, issued := issued st @ [(VerifyEntities, ok1)]\<rparr>
                  in if \<not> ok1 then (Some QueryError, Some merged, st1)
                     else
                       (let (g2, ok2) = gq g1 VerifyRelationships;
                            st2 = st1\<lparr>graph := g2, issued := issued st1 @ [(VerifyRelationships, ok2)]\<rparr>
                        in if \<not> ok2 then (Some QueryError, Some merged, st2)
                           else (None, Some merged, st2)))))"

text \<open>\<open>except Exception as e: print(...)\<close> around both stages.\<close>

definition process_document_to_graph ::
  "'g graph_query \<Rightarrow> 'g \<Rightarrow> document_env \<Rightarrow> bool \<Rightarrow> bool \<Rightarrow> bool \<Rightarrow> 'g run" where
  "process_document_to_graph gq g env clear_existing save_data load_data =
     (let st0 = \<lparr>graph = g, issued = [], printed = []\<rparr> in
      case log_open env of
        Some e \<Rightarrow> \<lparr>raised = Some e, error_printed = None, merged_at_end = None, writer = st0\<rparr>
      | None \<Rightarrow>
          (let (exc, merged, st) =
                 (case extraction_stage env load_data save_data of
                    Inl e \<Rightarrow> (Some e, None, st0)
                  | Inr vars \<Rightarrow> post_extraction_stage gq g vars clear_existing)
           in case exc of
                None \<Rightarrow> \<lparr>raised = None, error_printed = None, merged_at_end = merged, writer = st\<rparr>
              | Some e \<Rightarrow>
                  if is_Exception e
                  then \<lparr>raised = None, error_printed = Some e, merged_at_end = merged, writer = st\<rparr>
                  else \<lparr>raised = Some e, error_printed = None, merged_at_end = merged, writer = st\<rparr>))"


section \<open>The entry point of the duplicate-detection script\<close>





section \<open>The extraction call: \<open>extract_entities_relationships\<close>\<close>




















section \<open>Rule-based detection of duplicate entity types\<close>

text \<open>
  An item of \<open>node_labels\<close> is a dictionary with the keys \<open>label\<close> and \<open>count\<close>.
  A duplicate group is a dictionary with the member list \<open>duplicate_types\<close>, the
  \<open>reasoning\<close> and the recommended \<open>keep_type\<close>; its three remaining entries are fixed
  texts and are left out. The reasoning is one of three f-strings around the member list,
  kept as the constructor that names the f-string.
\<close>

record node_label =
  label :: string
  count :: int

datatype reasoning =
  CaseVariation "string list"
  | IdenticalExceptCase "string list"
  | SingularPlural "string list"

record duplicate_group =
  duplicate_types :: "string list"
  reasoning :: reasoning
  keep_type :: string

text \<open>
  The dictionary from the lower-cased label to its variants, in insertion order:
  \<open>if lowercase in label_map: label_map[lowercase].append(label) else: label_map[lowercase] = [label]\<close>.
\<close>

fun add_label :: "string \<Rightarrow> (string \<times> string list) list \<Rightarrow> (string \<times> string list) list" where
  "add_label l [] = [(lower l, [l])]"
| "add_label l ((lowercase, variants) # m) =
     (if lowercase = lower l then (lowercase, variants @ [l]) # m
      else (lowercase, variants) # add_label l m)"

definition label_map :: "string list \<Rightarrow> (string \<times> string list) list" where
  "label_map labels = foldl (\<lambda>m l. add_label l m) [] labels"

text \<open>\<open>next((item['count'] for item in node_labels if item['label'] == x), 0)\<close>\<close>

definition count_of :: "node_label list \<Rightarrow> string \<Rightarrow> int" where
  "count_of node_labels x =
     (case find (\<lambda>item. label item = x) node_labels of Some item \<Rightarrow> count item | None \<Rightarrow> 0)"

text \<open>
  \<open>max(variants, key=...)\<close> and \<open>min(pair, key=len)\<close> return the first element among
  those with the greatest (least) key.
\<close>

definition max_by :: "('a \<Rightarrow> int) \<Rightarrow> 'a \<Rightarrow> 'a list \<Rightarrow> 'a" where
  "max_by key x xs = foldl (\<lambda>best y. if key y > key best then y else best) x xs"

definition min_by :: "('a \<Rightarrow> int) \<Rightarrow> 'a \<Rightarrow> 'a list \<Rightarrow> 'a" where
  "min_by key x xs = foldl (\<lambda>best y. if key y < key best then y else best) x xs"

text \<open>The group added for an entry of \<open>label_map\<close> when \<open>len(variants) > 1\<close>.\<close>

fun case_variation_group :: "node_label list \<Rightarrow> string list \<Rightarrow> duplicate_group list" where
  "case_variation_group node_labels (v # w # vs) =
     [\<lparr>duplicate_types = v # w # vs,
       reasoning = CaseVariation (v # w # vs),
       keep_type = max_by (count_of node_labels) v (w # vs)\<rparr>]"
| "case_variation_group node_labels variants = []"

definition singular_plural_pairs :: "string list \<Rightarrow> string list list" where
  "singular_plural_pairs labels =
     concat (map (\<lambda>label1.
       concat (map (\<lambda>label2.
         if label1 \<noteq> label2 \<and>
            (lower label1 @ ''s'' = lower label2 \<or> lower label2 @ ''s'' = lower label1)
         then [[label1, label2]] else []) labels)) labels)"

fun singular_plural_group :: "string list \<Rightarrow> duplicate_group list" where
  "singular_plural_group (x # xs) =
     [\<lparr>duplicate_types = x # xs,
       reasoning = SingularPlural (x # xs),
       keep_type = min_by (\<lambda>s. int (length s)) x xs\<rparr>]"
| "singular_plural_group [] = []"

definition prefilter_duplicate_entity_types :: "node_label list \<Rightarrow> duplicate_group list" where
  "prefilter_duplicate_entity_types node_labels =
     (let labels = map label node_labels
      in concat (map (\<lambda>(lowercase, variants). case_variation_group node_labels variants)
                   (label_map labels))
         @ concat (map singular_plural_group (singular_plural_pairs labels)))"

text \<open>
  \<open>find_case_insensitive_duplicates\<close>, from the labels the graph store returns: the same
  grouping, and the first variant is kept.
\<close>

fun identical_except_case_group :: "string list \<Rightarrow> duplicate_group list" where
  "identical_except_case_group (v # w # vs) =
     [\<lparr>duplicate_types = v # w # vs,
       reasoning = IdenticalExceptCase (v # w # vs),
       keep_type = v\<rparr>]"
| "identical_except_case_group variants = []"

definition find_case_insensitive_duplicates :: "string list \<Rightarrow> duplicate_group list" where
  "find_case_insensitive_duplicates labels =
     concat (map (\<lambda>(lowercase, variants). identical_except_case_group variants) (label_map labels))"

section \<open>The duplicate resolution engine: \<open>execute_resolution_plan\<close>\<close>

text \<open>
  A resolution plan is whatever \<open>json.load\<close> read from the plan file or the planner
  built: a decoded value, expected to be a dictionary with the keys \<open>groups\<close> and
  \<open>resolution_plan\<close>. The function is modelled on the value as it is, so that a key that
  is absent, a key that is null and a value of an unexpected kind each do what they do in
  the code.

  The outside world of an execution: the graph store, the lines the operator will type,
  and the record of what has happened: every query sent to the store with its stage, step
  number and success, and every answer read from the operator.
\<close>

datatype stage = PreValidation | MergeOperation | PostValidation

datatype event =
  Ran stage nat json bool
  | Answered stage nat string

record 'g world =
  store :: 'g
  stdin :: "string list"
  trace :: "event list"

text \<open>
  The store runs the value passed as the query: the next store, the rows, and whether the
  call returned.
\<close>

type_synonym 'g cypher_run = "'g \<Rightarrow> json \<Rightarrow> 'g \<times> json list \<times> bool"

text \<open>\<open>execute_cypher_query\<close> returns \<open>(result, True)\<close>, or \<open>([], False)\<close> when the store raises.\<close>

definition execute_cypher_query ::
  "'g cypher_run \<Rightarrow> stage \<Rightarrow> nat \<Rightarrow> json \<Rightarrow> 'g world \<Rightarrow> (json list \<times> bool) \<times> 'g world" where
  "execute_cypher_query run st j q w =
     (let (g', rows, ok) = run (store w) q
      in ((if ok then rows else [], ok),
          w\<lparr>store := g', trace := trace w @ [Ran st j q ok]\<rparr>))"

text \<open>\<open>input(...)\<close> reads the next line; at the end of the input it raises EOFError.\<close>

definition input :: "stage \<Rightarrow> nat \<Rightarrow> 'g world \<Rightarrow> py_exception + (string \<times> 'g world)" where
  "input st j w =
     (case stdin w of
        [] \<Rightarrow> Inl EOFError
      | answer # rest \<Rightarrow> Inr (answer, w\<lparr>stdin := rest, trace := trace w @ [Answered st j answer]\<rparr>))"

text \<open>The entries of the execution report.\<close>

record validation_result =
  v_step :: nat
  v_description :: json
  v_query :: json
  v_success :: bool
  v_result_count :: nat
  v_sample_results :: "json list"
  v_user_approved :: "bool option"

record operation_result =
  o_step :: nat
  o_description :: json
  o_query :: json
  o_requires_confirmation :: json
  o_executed :: bool
  o_success :: bool
  o_records_affected :: nat
  o_user_approved :: "bool option"
  o_user_skipped :: bool

datatype status =
  Pending | Success | PartialSuccess | OperationFailed | PreValidationFailed
  | PreValidationRejected | OperationRejected | PostValidationFailed | PostValidationRejected

datatype detail =
  StepFailed stage nat
  | StepRejected stage nat

record group_result =
  gr_group_id :: json
  gr_summary :: json
  status :: status
  details :: "detail list"
  pre_validation_results :: "validation_result list"
  operation_results :: "operation_result list"
  post_validation_results :: "validation_result list"

record execution_results =
  total_groups :: nat
  successful_groups :: nat
  failed_groups :: nat
  skipped_groups :: nat
  group_results :: "group_result list"

text \<open>
  The loop over the validations of a stage, the same code before and after the merge.
  The first statement of the body calls \<open>validation.get\<close>, which only a dictionary has.
  Then: run the query and record it; stop when it fails; otherwise ask the operator,
  record the answer, and stop unless the lower-cased answer is \<open>y\<close>. \<open>j\<close> counts the
  steps done, \<open>results\<close> is the list recorded so far. An exception leaves with the world
  it met.
\<close>

datatype loop_end = Passed | Failed nat | Rejected nat

fun run_validation ::
  "'g cypher_run \<Rightarrow> stage \<Rightarrow> json list \<Rightarrow> nat \<Rightarrow> validation_result list \<Rightarrow> 'g world \<Rightarrow>
   (py_exception \<times> 'g world) + (loop_end \<times> validation_result list \<times> 'g world)" where
  "run_validation run st [] j results w = Inr (Passed, results, w)"
| "run_validation run st (validation # rest) j results w =
     (case the_dict validation of
        Inl e \<Rightarrow> Inl (e, w)
      | Inr v \<Rightarrow>
          (let ((query_results, success), w1) =
                 execute_cypher_query run st (j + 1) (get_or (map_of v ''query'') (JStr [])) w;
               result = \<lparr>v_step = j + 1,
                         v_description = get_or (map_of v ''description'') (JStr ''Unknown check''),
                         v_query = get_or (map_of v ''query'') (JStr ''No query''),
                         v_success = success,
                         v_result_count = length query_results,
                         v_sample_results = take 5 query_results,
                         v_user_approved = None\<rparr>
           in if \<not> success then Inr (Failed (j + 1), results @ [result], w1)
              else
                (case input st (j + 1) w1 of
                   Inl e \<Rightarrow> Inl (e, w1)
                 | Inr (answer, w2) \<Rightarrow>
                     (let proceed = (lower answer = ''y'');
                          results' = results @ [result\<lparr>v_user_approved := Some proceed\<rparr>]
                      in if \<not> proceed then Inr (Rejected (j + 1), results', w2)
                         else run_validation run st rest (j + 1) results' w2))))"

text \<open>
  The loop over the merge operations. The operator is asked when
  \<open>operation.get("requires_confirmation", True)\<close> is true in Python's sense.
\<close>

fun run_merge_operations ::
  "'g cypher_run \<Rightarrow> json list \<Rightarrow> nat \<Rightarrow> operation_result list \<Rightarrow> 'g world \<Rightarrow>
   (py_exception \<times> 'g world) + (loop_end \<times> operation_result list \<times> 'g world)" where
  "run_merge_operations run [] j results w = Inr (Passed, results, w)"
| "run_merge_operations run (operation # rest) j results w =
     (case the_dict operation of
        Inl e \<Rightarrow> Inl (e, w)
      | Inr v \<Rightarrow>
          (let operation_result =
                 \<lparr>o_step = j + 1,
                  o_description = get_or (map_of v ''description'') (JStr ''Unknown operation''),
                  o_query = get_or (map_of v ''query'') (JStr ''No query''),
                  o_requires_confirmation = get_or (map_of v ''requires_confirmation'') (JBool True),
                  o_executed = False, o_success = False, o_records_affected = 0,
                  o_user_approved = None, o_user_skipped = False\<rparr>;
               asked =
                 (if truthy (get_or (map_of v ''requires_confirmation'') (JBool True))
                  then (case input MergeOperation (j + 1) w of
                          Inl e \<Rightarrow> Inl (e, w)
                        | Inr (answer, w1) \<Rightarrow> Inr (Some (lower answer = ''y''), w1))
                  else Inr (None, w))
           in case asked of
                Inl ew \<Rightarrow> Inl ew
              | Inr (approved, w1) \<Rightarrow>
                  if approved = Some False
                  then Inr (Rejected (j + 1),
                            results @ [operation_result\<lparr>o_user_approved := approved,
                                         o_user_skipped := True\<rparr>],
                            w1)
                  else
                    (let ((query_results, success), w2) =
                           execute_cypher_query run MergeOperation (j + 1)
                             (get_or (map_of v ''query'') (JStr [])) w1;
                         results' = results @
                           [operation_result\<lparr>o_user_approved := approved, o_executed := True,
                              o_success := success, o_records_affected := length query_results\<rparr>]
                     in if \<not> success then Inr (Failed (j + 1), results', w2)
                        else run_merge_operations run rest (j + 1) results' w2)))"

text \<open>
  The body of the loop over the plans for an entry \<open>plan\<close> (a dictionary, given by its
  entries) whose group \<open>g\<close> was found: validation before the merge, the merge operations,
  validation after the merge, each over the items of \<open>plan.get(key, [])\<close>. A failure or a
  rejection in the first stage counts the group as skipped, in the second as failed; in
  both cases the result is appended and the loop goes on with the next entry
  (\<open>continue\<close>). After the third stage the result is appended in every case.
\<close>

definition execute_group ::
  "'g cypher_run \<Rightarrow> (string \<times> json) list \<Rightarrow> (string \<times> json) list \<Rightarrow> execution_results \<Rightarrow>
   'g world \<Rightarrow> (py_exception \<times> 'g world) + (execution_results \<times> 'g world)" where
  "execute_group run plan g er w =
     (let group_result =
            \<lparr>gr_group_id = get_or (map_of g ''group_id'') JNull,
             gr_summary = get_or (map_of g ''group_summary'') JNull, status = Pending,
             details = [], pre_validation_results = [], operation_results = [],
             post_validation_results = []\<rparr>
      in case py_iter (get_or (map_of plan ''pre_merge_validation'') (JArr [])) of
           Inl e \<Rightarrow> Inl (e, w)
         | Inr pre_steps \<Rightarrow>
      (case run_validation run PreValidation pre_steps 0 [] w of
           Inl ew \<Rightarrow> Inl ew
         | Inr (pre_end, pre_results, w1) \<Rightarrow>
             (let gr1 = group_result\<lparr>pre_validation_results := pre_results\<rparr> in
              case pre_end of
                Failed j \<Rightarrow>
                  Inr (er\<lparr>skipped_groups := skipped_groups er + 1,
                          group_results := group_results er @
                            [gr1\<lparr>status := PreValidationFailed,
                                 details := [StepFailed PreValidation j]\<rparr>]\<rparr>, w1)
              | Rejected j \<Rightarrow>
                  Inr (er\<lparr>skipped_groups := skipped_groups er + 1,
                          group_results := group_results er @
                            [gr1\<lparr>status := PreValidationRejected,
                                 details := [StepRejected PreValidation j]\<rparr>]\<rparr>, w1)
              | Passed \<Rightarrow>
                  (case py_iter (get_or (map_of plan ''merge_operations'') (JArr [])) of
                     Inl e \<Rightarrow> Inl (e, w1)
                   | Inr operations \<Rightarrow>
                  (case run_merge_operations run operations 0 [] w1 of
                     Inl ew \<Rightarrow> Inl ew
                   | Inr (merge_end, op_results, w2) \<Rightarrow>
                       (let gr2 = gr1\<lparr>operation_results := op_results\<rparr> in
                        case merge_end of
                          Rejected j \<Rightarrow>
                            Inr (er\<lparr>failed_groups := failed_groups er + 1,
                                    group_results := group_results er @
                                      [gr2\<lparr>status := OperationRejected,
                                           details := [StepRejected MergeOperation j]\<rparr>]\<rparr>, w2)
                        | Failed j \<Rightarrow>
                            Inr (er\<lparr>failed_groups := failed_groups er + 1,
                                    group_results := group_results er @
                                      [gr2\<lparr>status := OperationFailed,
                                           details := [StepFailed MergeOperation j]\<rparr>]\<rparr>, w2)
                        | Passed \<Rightarrow>
                            (case py_iter (get_or (map_of plan ''post_merge_validation'') (JArr [])) of
                               Inl e \<Rightarrow> Inl (e, w2)
                             | Inr post_steps \<Rightarrow>
                            (case run_validation run PostValidation post_steps 0 [] w2 of
                               Inl ew \<Rightarrow> Inl ew
                             | Inr (post_end, post_results, w3) \<Rightarrow>
                                 (let gr3 = gr2\<lparr>post_validation_results := post_results\<rparr> in
                                  case post_end of
                                    Passed \<Rightarrow>
                                      Inr (er\<lparr>successful_groups := successful_groups er + 1,
                                              group_results := group_results er @
                                                [gr3\<lparr>status := Success\<rparr>]\<rparr>, w3)
                                  | Failed j \<Rightarrow>
                                      Inr (er\<lparr>group_results := group_results er @
                                                [gr3\<lparr>status := PostValidationFailed,
                                                     details := [StepFailed PostValidation j]\<rparr>]\<rparr>, w3)
                                  | Rejected j \<Rightarrow>
                                      Inr (er\<lparr>group_results := group_results er @
                                                [gr3\<lparr>status := PostValidationRejected,
                                                     details := [StepRejected PostValidation j]\<rparr>]\<rparr>, w3))))))))))"

text \<open>
  \<open>x.get("group_id")\<close> used as a key of a dictionary: \<open>x\<close> must be a dictionary and the
  value, \<open>None\<close> when the key is absent, hashable.
\<close>

definition group_key :: "json \<Rightarrow> py_exception + json" where
  "group_key x =
     (case the_dict x of
        Inl e \<Rightarrow> Inl e
      | Inr d \<Rightarrow> dict_key (get_or (map_of d ''group_id'') JNull))"

text \<open>
  \<open>group_lookup = {g.get("group_id"): g for g in groups}\<close>: of two groups with one key
  the later one stays.
\<close>

fun group_lookup :: "json list \<Rightarrow> (json \<times> json) list \<Rightarrow> py_exception + (json \<times> json) list" where
  "group_lookup [] lookup = Inr lookup"
| "group_lookup (g # gs) lookup =
     (case group_key g of
        Inl e \<Rightarrow> Inl e
      | Inr k \<Rightarrow> group_lookup gs (dict_set k g lookup))"

text \<open>
  What the head of the loop body finds for a plan entry: \<open>plan.get("group_id")\<close>,
  \<open>group_lookup.get(group_id)\<close> and the test \<open>if not group\<close>, which holds when there is
  no group under the key or the group is the empty dictionary. The result is the entries
  of the plan and of the group, or \<open>None\<close> when the entry is passed over. A group that is
  not a dictionary would raise at \<open>group.get\<close>.
\<close>

definition find_group ::
  "(json \<times> json) list \<Rightarrow> json \<Rightarrow>
   py_exception + ((string \<times> json) list \<times> (string \<times> json) list) option" where
  "find_group lookup plan =
     (case the_dict plan of
        Inl e \<Rightarrow> Inl e
      | Inr p \<Rightarrow>
          (case dict_key (get_or (map_of p ''group_id'') JNull) of
             Inl e \<Rightarrow> Inl e
           | Inr k \<Rightarrow>
               (case map_of lookup k of
                  None \<Rightarrow> Inr None
                | Some found \<Rightarrow>
                    if \<not> truthy found then Inr None
                    else (case the_dict found of
                            Inl e \<Rightarrow> Inl e
                          | Inr g \<Rightarrow> Inr (Some (p, g))))))"

text \<open>
  \<open>for i, plan in enumerate(plans)\<close>: an entry that is passed over prints a warning and
  the loop goes on.
\<close>

fun run_plans ::
  "'g cypher_run \<Rightarrow> (json \<times> json) list \<Rightarrow> json list \<Rightarrow> execution_results \<Rightarrow>
   'g world \<Rightarrow> (py_exception \<times> 'g world) + (execution_results \<times> 'g world)" where
  "run_plans run lookup [] er w = Inr (er, w)"
| "run_plans run lookup (plan # rest) er w =
     (case find_group lookup plan of
        Inl e \<Rightarrow> Inl (e, w)
      | Inr None \<Rightarrow> run_plans run lookup rest er w
      | Inr (Some (p, g)) \<Rightarrow>
          (case execute_group run p g er w of
             Inl ew \<Rightarrow> Inl ew
           | Inr (er', w') \<Rightarrow> run_plans run lookup rest er' w'))"

text \<open>
  The part of \<open>execute_resolution_plan\<close> after the choice of \<open>plans\<close> and \<open>groups\<close>:
  \<open>len(groups)\<close>, the lookup, the loop, and the value returned, \<open>failed_groups <= 0\<close>.
  Every exception is caught by the handler of the function, which returns \<open>False\<close>; the
  report is then neither printed nor saved.
\<close>

definition execute_plans ::
  "'g cypher_run \<Rightarrow> json \<Rightarrow> json \<Rightarrow> 'g world \<Rightarrow> bool \<times> execution_results option \<times> 'g world" where
  "execute_plans run plans groups w =
     (case py_len groups of
        Inl e \<Rightarrow> (False, None, w)
      | Inr n \<Rightarrow>
          (case py_iter groups of
             Inl e \<Rightarrow> (False, None, w)
           | Inr gs \<Rightarrow>
               (case group_lookup gs [] of
                  Inl e \<Rightarrow> (False, None, w)
                | Inr lookup \<Rightarrow>
                    (case py_iter plans of
                       Inl e \<Rightarrow> (False, None, w)
                     | Inr ps \<Rightarrow>
                         (case run_plans run lookup ps
                                 \<lparr>total_groups = n, successful_groups = 0, failed_groups = 0,
                                  skipped_groups = 0, group_results = []\<rparr> w of
                            Inl (e, w') \<Rightarrow> (False, None, w')
                          | Inr (er, w') \<Rightarrow> (failed_groups er \<le> 0, Some er, w'))))))"

text \<open>
  \<open>x[i]\<close> for an index within \<open>len(x)\<close>, and \<open>x["group_id"]\<close>.
\<close>

fun py_index :: "json \<Rightarrow> nat \<Rightarrow> py_exception + json" where
  "py_index (JArr xs) i = Inr (xs ! i)"
| "py_index (JStr s) i = Inr (JStr [s ! i])"
| "py_index (JObj kvs) i = Inl KeyError"
| "py_index v i = Inl TypeError"

fun py_subscript :: "json \<Rightarrow> string \<Rightarrow> py_exception + json" where
  "py_subscript (JObj kvs) k = (case map_of kvs k of None \<Rightarrow> Inl KeyError | Some v \<Rightarrow> Inr v)"
| "py_subscript v k = Inl TypeError"

text \<open>\<open>[p for p in resolution_plan["resolution_plan"] if p.get("group_id") == group_id]\<close>\<close>

fun select_plans :: "json list \<Rightarrow> json \<Rightarrow> py_exception + json list" where
  "select_plans [] group_id = Inr []"
| "select_plans (p # ps) group_id =
     (case py_get p ''group_id'' JNull of
        Inl e \<Rightarrow> Inl e
      | Inr v \<Rightarrow>
          (case select_plans ps group_id of
             Inl e \<Rightarrow> Inl e
           | Inr selected \<Rightarrow> Inr (if py_eq v group_id then p # selected else selected)))"

text \<open>
  \<open>execute_resolution_plan(graph, resolution_plan, group_idx)\<close>. Without a group index
  the plans and the groups are those of the file. With one, the plans are the entries
  whose \<open>group_id\<close> equals that of the group at the index, and the groups are that group
  alone. Whatever is raised on the way is caught by the handler, which returns \<open>False\<close>.
\<close>

definition execute_resolution_plan ::
  "'g cypher_run \<Rightarrow> json \<Rightarrow> int option \<Rightarrow> 'g world \<Rightarrow>
   bool \<times> execution_results option \<times> 'g world" where
  "execute_resolution_plan run resolution_plan group_idx w =
     (if \<not> truthy resolution_plan then (False, None, w)
      else
        (case the_dict resolution_plan of
           Inl e \<Rightarrow> (False, None, w)
         | Inr rp \<Rightarrow>
             if \<not> truthy (get_or (map_of rp ''resolution_plan'') JNull) then (False, None, w)
             else
               (case group_idx of
                  None \<Rightarrow>
                    execute_plans run (get_or (map_of rp ''resolution_plan'') (JArr []))
                      (get_or (map_of rp ''groups'') (JArr [])) w
                | Some idx \<Rightarrow>
                    (case py_len (get_or (map_of rp ''groups'') (JArr [])) of
                       Inl e \<Rightarrow> (False, None, w)
                     | Inr n \<Rightarrow>
                         if idx < 0 \<or> idx \<ge> int n then (False, None, w)
                         else
                           (case py_index (get_or (map_of rp ''groups'') (JArr [])) (nat idx) of
                              Inl e \<Rightarrow> (False, None, w)
                            | Inr g \<Rightarrow>
                                (case py_subscript g ''group_id'' of
                                   Inl e \<Rightarrow> (False, None, w)
                                 | Inr group_id \<Rightarrow>
                                     (case py_iter (get_or (map_of rp ''resolution_plan'') JNull) of
                                        Inl e \<Rightarrow> (False, None, w)
                                      | Inr ps \<Rightarrow>
                                          (case select_plans ps group_id of
                                             Inl e \<Rightarrow> (False, None, w)
                                           | Inr plan_to_execute \<Rightarrow>
                                               if plan_to_execute = [] then (False, None, w)
                                               else execute_plans run (JArr plan_to_execute)
                                                      (JArr [g]) w))))))))"

text \<open>
  The words of the specification: an entry of \<open>resolution_plan\<close> references a
  \<open>group_id\<close> that has no matching entry in \<open>groups\<close>. An absent \<open>group_id\<close> is the value
  \<open>None\<close>, on both sides.
\<close>

definition references_absent_group :: "json list \<Rightarrow> json \<Rightarrow> bool" where
  "references_absent_group gs plan =
     (case group_key plan of
        Inl e \<Rightarrow> False
      | Inr k \<Rightarrow> list_all (\<lambda>g. group_key g \<noteq> Inr k) gs)"

text \<open>The world an entry's execution leaves, whether it returned or raised.\<close>

definition world_after :: "('e \<times> 'w) + ('a \<times> 'w) \<Rightarrow> 'w" where
  "world_after r = (case r of Inl (e, w) \<Rightarrow> w | Inr (a, w) \<Rightarrow> w)"

text \<open>The stage an event belongs to.\<close>

fun stage_of :: "event \<Rightarrow> stage" where
  "stage_of (Ran st j q ok) = st"
| "stage_of (Answered st j a) = st"

section \<open>Properties of the merger\<close>

lemma find_append_first:
  "find P (xs @ ys) = (case find P xs of None \<Rightarrow> find P ys | Some x \<Rightarrow> Some x)"
  by (induction xs) auto

lemma find_none_iff_key: "find (\<lambda>y. key y = k) xs = None \<longleftrightarrow> k \<notin> key ` set xs"
  by (induction xs) auto

lemma first_inv_empty: "first_inv key [] ([], {})"
  by (simp add: first_inv_def)

lemma first_inv_skip:
  assumes "first_inv key seen (m, ks)" and "key x \<in> ks"
  shows "first_inv key (seen @ [x]) (m, ks)"
proof -
  from assms have in_done: "key x \<in> key ` set seen" by (simp add: first_inv_def)
  have "\<forall>z \<in> set m. find (\<lambda>y. key y = key z) (seen @ [x]) = Some z"
    using assms(1) by (auto simp: first_inv_def find_append_first)
  with assms in_done show ?thesis
    by (auto simp: first_inv_def)
qed

lemma first_inv_add:
  assumes "first_inv key seen (m, ks)" and "key x \<notin> ks"
  shows "first_inv key (seen @ [x]) (m @ [x], insert (key x) ks)"
proof -
  from assms have fresh: "key x \<notin> key ` set seen" by (simp add: first_inv_def)
  then have none: "find (\<lambda>y. key y = key x) seen = None"
    by (simp add: find_none_iff_key)
  have old: "\<forall>z \<in> set m. find (\<lambda>y. key y = key z) (seen @ [x]) = Some z"
    using assms(1) by (auto simp: first_inv_def find_append_first)
  have new: "find (\<lambda>y. key y = key x) (seen @ [x]) = Some x"
    using none by (simp add: find_append_first)
  from assms(1) fresh have "distinct (map key (m @ [x]))"
    by (auto simp: first_inv_def)
  with assms(1) old new show ?thesis
    by (auto simp: first_inv_def)
qed

lemma merge_entities_chunk_inv:
  "first_inv e_id seen st \<Longrightarrow> first_inv e_id (seen @ es) (merge_entities_chunk es st)"
proof (induction es arbitrary: seen st)
  case Nil
  then show ?case by simp
next
  case (Cons e es)
  obtain m ks where st: "st = (m, ks)" by (cases st)
  show ?case
  proof (cases "e_id e \<in> ks")
    case True
    with Cons.prems st have "first_inv e_id (seen @ [e]) (m, ks)"
      by (simp add: first_inv_skip)
    from Cons.IH [OF this] True st show ?thesis by simp
  next
    case False
    with Cons.prems st have "first_inv e_id (seen @ [e]) (m @ [e], insert (e_id e) ks)"
      by (simp add: first_inv_add)
    from Cons.IH [OF this] False st show ?thesis by simp
  qed
qed

lemma merge_entities_inv:
  "first_inv e_id seen st \<Longrightarrow>
   first_inv e_id (seen @ concat (map entities ds)) (merge_entities ds st)"
proof (induction ds arbitrary: seen st)
  case Nil
  then show ?case by simp
next
  case (Cons d ds)
  from Cons.prems have "first_inv e_id (seen @ entities d) (merge_entities_chunk (entities d) st)"
    by (rule merge_entities_chunk_inv)
  from Cons.IH [OF this] show ?case by simp
qed

lemma merge_relationships_chunk_inv:
  "first_inv rel_key seen st \<Longrightarrow>
   first_inv rel_key (seen @ rs) (merge_relationships_chunk rs st)"
proof (induction rs arbitrary: seen st)
  case Nil
  then show ?case by simp
next
  case (Cons r rs)
  obtain m ks where st: "st = (m, ks)" by (cases st)
  show ?case
  proof (cases "rel_key r \<in> ks")
    case True
    with Cons.prems st have "first_inv rel_key (seen @ [r]) (m, ks)"
      by (simp add: first_inv_skip)
    from Cons.IH [OF this] True st show ?thesis by simp
  next
    case False
    with Cons.prems st
    have "first_inv rel_key (seen @ [r]) (m @ [r], insert (rel_key r) ks)"
      by (simp add: first_inv_add)
    from Cons.IH [OF this] False st show ?thesis by simp
  qed
qed

lemma merge_relationships_inv:
  "first_inv rel_key seen st \<Longrightarrow>
   first_inv rel_key (seen @ concat (map relationships ds)) (merge_relationships ds st)"
proof (induction ds arbitrary: seen st)
  case Nil
  then show ?case by simp
next
  case (Cons d ds)
  from Cons.prems
  have "first_inv rel_key (seen @ relationships d) (merge_relationships_chunk (relationships d) st)"
    by (rule merge_relationships_chunk_inv)
  from Cons.IH [OF this] show ?case by simp
qed

lemma merged_entities_inv:
  "first_inv e_id (concat (map entities dl)) (merge_entities dl ([], {}))"
  using merge_entities_inv [OF first_inv_empty, of dl] by simp

lemma merged_relationships_inv:
  "first_inv rel_key (concat (map relationships dl)) (merge_relationships dl ([], {}))"
  using merge_relationships_inv [OF first_inv_empty, of dl] by simp

text \<open>The first occurrence in the concatenation lies in the lowest chunk holding the key.\<close>

lemma find_concat_lowest:
  "find (\<lambda>y. key y = k) (concat xss) = Some x \<Longrightarrow>
   \<exists>i < length xss. x \<in> set (xss ! i) \<and> key x = k \<and>
      find (\<lambda>y. key y = k) (xss ! i) = Some x \<and>
      (\<forall>j < i. k \<notin> key ` set (xss ! j))"
proof (induction xss)
  case Nil
  then show ?case by simp
next
  case (Cons xs xss)
  show ?case
  proof (cases "find (\<lambda>y. key y = k) xs")
    case None
    with Cons.prems have "find (\<lambda>y. key y = k) (concat xss) = Some x"
      by (simp add: find_append_first)
    from Cons.IH [OF this] obtain i where i: "i < length xss" "x \<in> set (xss ! i)" "key x = k"
      "find (\<lambda>y. key y = k) (xss ! i) = Some x" "\<forall>j < i. k \<notin> key ` set (xss ! j)"
      by blast
    from None have fresh: "k \<notin> key ` set xs" by (simp add: find_none_iff_key)
    have "\<forall>j < Suc i. k \<notin> key ` set ((xs # xss) ! j)"
    proof (intro allI impI)
      fix j assume "j < Suc i"
      then show "k \<notin> key ` set ((xs # xss) ! j)"
        using fresh i(5) by (cases j) auto
    qed
    with i show ?thesis
      by (intro exI [of _ "Suc i"]) simp
  next
    case (Some z)
    with Cons.prems have zx: "z = x" by (simp add: find_append_first)
    from Some zx have "x \<in> set xs \<and> key x = k"
      by (auto simp: find_Some_iff)
    with Some zx show ?thesis
      by (intro exI [of _ 0]) simp
  qed
qed

subsection \<open>Entities\<close>

lemma distinct_count_one:
  "distinct (map f xs) \<Longrightarrow> k \<in> f ` set xs \<Longrightarrow> length (filter (\<lambda>x. f x = k) xs) = 1"
proof (induction xs)
  case Nil
  then show ?case by simp
next
  case (Cons x xs)
  show ?case
  proof (cases "f x = k")
    case True
    with Cons.prems have "k \<notin> f ` set xs" by auto
    then have "filter (\<lambda>x. f x = k) xs = []" by (auto simp: filter_empty_conv)
    with True show ?thesis by simp
  next
    case False
    with Cons show ?thesis by auto
  qed
qed

text \<open>
  Claim C1. For every list of per-chunk results given to \<open>merge_extracted_data\<close>, every
  entity id occurring in the input occurs exactly once in the merged entities, the merged
  entities carry no other id, and the record kept for an id is the first one with that id
  in list order, unchanged: it is the first entity with that id of the chunk with the
  lowest index whose entities contain the id. Later entities with the same id are dropped
  and none of their fields reaches the output.
\<close>

theorem merge_entities_first_occurrence:
  "(\<forall>k \<in> e_id ` set (concat (map entities data_list)).
      length (filter (\<lambda>e. e_id e = k) (entities (merge_extracted_data data_list))) = 1) \<and>
   e_id ` set (entities (merge_extracted_data data_list)) = e_id ` set (concat (map entities data_list)) \<and>
   (\<forall>e \<in> set (entities (merge_extracted_data data_list)).
      find (\<lambda>y. e_id y = e_id e) (concat (map entities data_list)) = Some e \<and>
      (\<exists>i < length data_list.
         find (\<lambda>y. e_id y = e_id e) (entities (data_list ! i)) = Some e \<and>
         (\<forall>j < i. e_id e \<notin> e_id ` set (entities (data_list ! j)))))"
proof -
  let ?out = "entities (merge_extracted_data data_list)"
  let ?all = "concat (map entities data_list)"
  have out: "?out = fst (merge_entities data_list ([], {}))"
    by (simp add: merge_extracted_data_def)
  from merged_entities_inv [of data_list]
  have d: "distinct (map e_id ?out)"
    and s: "e_id ` set ?out = e_id ` set ?all"
    and f: "\<forall>e \<in> set ?out. find (\<lambda>y. e_id y = e_id e) ?all = Some e"
    unfolding out first_inv_def by simp_all
  have c: "\<forall>k \<in> e_id ` set ?all. length (filter (\<lambda>e. e_id e = k) ?out) = 1"
    using d s distinct_count_one [of e_id ?out] by blast
  have l: "\<forall>e \<in> set ?out. \<exists>i < length data_list.
         find (\<lambda>y. e_id y = e_id e) (entities (data_list ! i)) = Some e \<and>
         (\<forall>j < i. e_id e \<notin> e_id ` set (entities (data_list ! j)))"
  proof
    fix e assume "e \<in> set ?out"
    with f have "find (\<lambda>y. e_id y = e_id e) (concat (map entities data_list)) = Some e" by blast
    from find_concat_lowest [OF this] obtain i where
      i: "i < length (map entities data_list)"
         "find (\<lambda>y. e_id y = e_id e) (map entities data_list ! i) = Some e"
         "\<forall>j < i. e_id e \<notin> e_id ` set (map entities data_list ! j)"
      by blast
    then have "\<forall>j < i. e_id e \<notin> e_id ` set (entities (data_list ! j))" by simp
    with i show "\<exists>i < length data_list.
         find (\<lambda>y. e_id y = e_id e) (entities (data_list ! i)) = Some e \<and>
         (\<forall>j < i. e_id e \<notin> e_id ` set (entities (data_list ! j)))"
      by (intro exI [of _ i]) simp
  qed
  from c s f l show ?thesis by blast
qed

text \<open>
  Two chunks that both mention the id \<open>a\<close> with different types, names and properties:
  the copy of chunk 0 is kept as it is.
\<close>

theorem merge_entities_first_occurrence_witness:
  "entities (merge_extracted_data
      [\<lparr>entities = [\<lparr>e_id = Some ''a'', e_type = Some ''Person'', e_name = Some ''Ann'', e_properties = []\<rparr>,
                    \<lparr>e_id = Some ''b'', e_type = Some ''Person'', e_name = Some ''Bob'', e_properties = []\<rparr>],
        relationships = []\<rparr>,
       \<lparr>entities = [\<lparr>e_id = Some ''a'', e_type = Some ''Place'', e_name = Some ''Ann Arbor'', e_properties = [(''k'', ''v'')]\<rparr>],
        relationships = []\<rparr>])
   = [\<lparr>e_id = Some ''a'', e_type = Some ''Person'', e_name = Some ''Ann'', e_properties = []\<rparr>,
      \<lparr>e_id = Some ''b'', e_type = Some ''Person'', e_name = Some ''Bob'', e_properties = []\<rparr>] \<and>
   length (filter (\<lambda>e. e_id e = Some ''a'') (entities (merge_extracted_data
      [\<lparr>entities = [\<lparr>e_id = Some ''a'', e_type = Some ''Person'', e_name = Some ''Ann'', e_properties = []\<rparr>,
                    \<lparr>e_id = Some ''b'', e_type = Some ''Person'', e_name = Some ''Bob'', e_properties = []\<rparr>],
        relationships = []\<rparr>,
       \<lparr>entities = [\<lparr>e_id = Some ''a'', e_type = Some ''Place'', e_name = Some ''Ann Arbor'', e_properties = [(''k'', ''v'')]\<rparr>],
        relationships = []\<rparr>]))) = 1"
  using merge_entities_first_occurrence [of
      "[\<lparr>entities = [\<lparr>e_id = Some ''a'', e_type = Some ''Person'', e_name = Some ''Ann'', e_properties = []\<rparr>,
                    \<lparr>e_id = Some ''b'', e_type = Some ''Person'', e_name = Some ''Bob'', e_properties = []\<rparr>],
        relationships = []\<rparr>,
       \<lparr>entities = [\<lparr>e_id = Some ''a'', e_type = Some ''Place'', e_name = Some ''Ann Arbor'', e_properties = [(''k'', ''v'')]\<rparr>],
        relationships = []\<rparr>]"]
  by (simp add: merge_extracted_data_def)

subsection \<open>Relationships\<close>

text \<open>
  What the relationship loop does guarantee: the keys of the merged relationships are
  pairwise different, every key of the input is the key of one merged relationship, and
  the relationship kept for a key is the first one of the input with that key.
\<close>

lemma merged_relationships_by_key:
  "distinct (map rel_key (relationships (merge_extracted_data data_list))) \<and>
   rel_key ` set (relationships (merge_extracted_data data_list)) =
     rel_key ` set (concat (map relationships data_list)) \<and>
   (\<forall>r \<in> set (relationships (merge_extracted_data data_list)).
      find (\<lambda>y. rel_key y = rel_key r) (concat (map relationships data_list)) = Some r)"
  using merged_relationships_inv [of data_list]
  by (simp add: merge_extracted_data_def first_inv_def)

lemma rel_key_triple: "triple r = triple r' \<Longrightarrow> rel_key r = rel_key r'"
  by (simp add: triple_def rel_key_def)

lemma distinct_map_coarser:
  "distinct (map f xs) \<Longrightarrow> (\<And>x y. g x = g y \<Longrightarrow> f x = f y) \<Longrightarrow> distinct (map g xs)"
proof (induction xs)
  case Nil
  show ?case by simp
next
  case (Cons x xs)
  from Cons.prems(1) have "f x \<notin> f ` set xs" by simp
  have "g x \<notin> g ` set xs"
  proof
    assume "g x \<in> g ` set xs"
    then obtain y where y: "y \<in> set xs" "g x = g y" by auto
    have "f x = f y" by (rule Cons.prems(2) [OF y(2)])
    with y(1) have "f x \<in> f ` set xs" by blast
    with \<open>f x \<notin> f ` set xs\<close> show False by simp
  qed
  moreover from Cons.prems(1) have "distinct (map f xs)" by simp
  then have "distinct (map g xs)" using Cons.prems(2) by (rule Cons.IH)
  ultimately show ?case by simp
qed

lemma merged_relationships_triples_distinct:
  "distinct (map triple (relationships (merge_extracted_data data_list)))"
proof -
  have "distinct (map rel_key (relationships (merge_extracted_data data_list)))"
    using merged_relationships_by_key by blast
  then show ?thesis
    by (rule distinct_map_coarser) (rule rel_key_triple)
qed

text \<open>
  Claim C4 says that of the relationships with one \<open>(source, type, target)\<close> triple exactly
  one survives the merge. The key the loop compares is the string
  \<open>source-type-target\<close>, and two different triples can render to the same string when a
  field contains a hyphen. Chunk 0 holds the triple
  \<open>(c2m2, domain-risk, objective-1)\<close>; chunks 1 and 2 both hold
  \<open>(c2m2-domain, risk, objective-1)\<close>. All three have the key
  \<open>c2m2-domain-risk-objective-1\<close>, so the merged delta holds the relationship of
  chunk 0 only and the triple of chunks 1 and 2 survives zero times.
\<close>

theorem merge_relationships_key_collision:
  "relationships (merge_extracted_data
     [\<lparr>entities = [], relationships =
         [\<lparr>r_source = Some ''c2m2'', r_target = Some ''objective-1'',
           r_type = Some ''domain-risk'', r_properties = []\<rparr>]\<rparr>,
      \<lparr>entities = [], relationships =
         [\<lparr>r_source = Some ''c2m2-domain'', r_target = Some ''objective-1'',
           r_type = Some ''risk'', r_properties = []\<rparr>]\<rparr>,
      \<lparr>entities = [], relationships =
         [\<lparr>r_source = Some ''c2m2-domain'', r_target = Some ''objective-1'',
           r_type = Some ''risk'', r_properties = []\<rparr>]\<rparr>])
   = [\<lparr>r_source = Some ''c2m2'', r_target = Some ''objective-1'',
       r_type = Some ''domain-risk'', r_properties = []\<rparr>] \<and>
   triple \<lparr>r_source = Some ''c2m2-domain'', r_target = Some ''objective-1'',
       r_type = Some ''risk'', r_properties = []\<rparr>
   \<noteq> triple \<lparr>r_source = Some ''c2m2'', r_target = Some ''objective-1'',
       r_type = Some ''domain-risk'', r_properties = []\<rparr>"
  by (simp add: merge_extracted_data_def rel_key_def triple_def)

section \<open>Properties of result collection\<close>

text \<open>
  The adaptive script stores each result in the slot of its chunk index, so the list it
  collects does not depend on the order of the completions.
\<close>

lemma length_update_progress: "length (update_progress rs c) = length rs"
  by (cases c; cases "snd c") auto

lemma length_foldl_update_progress: "length (foldl update_progress rs cs) = length rs"
  by (induction cs arbitrary: rs) (simp_all add: length_update_progress)

lemma foldl_update_progress_nth:
  "distinct (map fst cs) \<Longrightarrow> i < length rs \<Longrightarrow>
   foldl update_progress rs cs ! i =
     (case map_of cs i of Some (Some r) \<Rightarrow> Some r | _ \<Rightarrow> rs ! i)"
proof (induction cs arbitrary: rs)
  case Nil
  then show ?case by simp
next
  case (Cons c cs)
  obtain idx res where c: "c = (idx, res)" by (cases c)
  from Cons.prems have d: "distinct (map fst cs)" and fresh: "idx \<notin> fst ` set cs"
    by (auto simp: c)
  have len: "i < length (update_progress rs c)"
    using Cons.prems(2) by (simp add: length_update_progress)
  note IH = Cons.IH [OF d len]
  show ?case
  proof (cases "i = idx")
    case True
    with fresh have "map_of cs i = None" by (simp add: map_of_eq_None_iff)
    with IH True Cons.prems(2) show ?thesis
      by (cases res) (simp_all add: c)
  next
    case False
    with IH show ?thesis
      by (cases res) (auto simp: c split: option.splits)
  qed
qed

lemma collect_slots_order_independent:
  assumes "set completions' = set completions"
    and "distinct (map fst completions)" and "distinct (map fst completions')"
  shows "collect_slots n completions' = collect_slots n completions"
proof -
  from assms have m: "map_of completions' = map_of completions"
    by (simp add: map_of_inject_set)
  have "foldl update_progress (replicate n None) completions'
      = foldl update_progress (replicate n None) completions"
  proof (rule nth_equalityI)
    show "length (foldl update_progress (replicate n None) completions')
        = length (foldl update_progress (replicate n None) completions)"
      by (simp add: length_foldl_update_progress)
  next
    fix i assume "i < length (foldl update_progress (replicate n None) completions')"
    then have i: "i < length (replicate n (None :: extraction_result option))"
      by (simp add: length_foldl_update_progress)
    show "foldl update_progress (replicate n None) completions' ! i
        = foldl update_progress (replicate n None) completions ! i"
      using foldl_update_progress_nth [OF assms(3) i] foldl_update_progress_nth [OF assms(2) i] m
      by simp
  qed
  then show ?thesis by (simp add: collect_slots_def)
qed

text \<open>
  Claim C2 says that the list handed to the merger, and so the merged delta, does not
  depend on the order in which the workers complete. The script
  \<^verbatim>\<open>neo4j_2b.i-langchain-document-to-graph-parallel.py\<close> appends the results in completion
  order instead. Two chunks that both mention the id \<open>elias\<close>: when chunk 0 completes
  first the merged delta keeps the entity of chunk 0, when chunk 1 completes first it keeps
  the entity of chunk 1.
\<close>

theorem as_completed_order_changes_merge:
  "merge_extracted_data (collect_as_completed
      [(0, Some \<lparr>entities = [\<lparr>e_id = Some ''elias'', e_type = Some ''Person'', e_name = Some ''Elias'', e_properties = []\<rparr>], relationships = []\<rparr>),
       (1, Some \<lparr>entities = [\<lparr>e_id = Some ''elias'', e_type = Some ''Actor'', e_name = Some ''Elias the leading man'', e_properties = []\<rparr>], relationships = []\<rparr>)])
   = \<lparr>entities = [\<lparr>e_id = Some ''elias'', e_type = Some ''Person'', e_name = Some ''Elias'', e_properties = []\<rparr>], relationships = []\<rparr> \<and>
   merge_extracted_data (collect_as_completed
      [(1, Some \<lparr>entities = [\<lparr>e_id = Some ''elias'', e_type = Some ''Actor'', e_name = Some ''Elias the leading man'', e_properties = []\<rparr>], relationships = []\<rparr>),
       (0, Some \<lparr>entities = [\<lparr>e_id = Some ''elias'', e_type = Some ''Person'', e_name = Some ''Elias'', e_properties = []\<rparr>], relationships = []\<rparr>)])
   = \<lparr>entities = [\<lparr>e_id = Some ''elias'', e_type = Some ''Actor'', e_name = Some ''Elias the leading man'', e_properties = []\<rparr>], relationships = []\<rparr>"
  by (simp add: merge_extracted_data_def collect_as_completed_def)

section \<open>Properties of the graph writer\<close>











lemmas writer_simps =
  build_graph_def entity_statement_def relationship_statement_def entity_label_def
  missing_end_def str_isalnum_def isalnum_def upper_def upper_char_def ascii_upper_def
  ascii_lower_def error_line_def Let_def



text \<open>
  An item outside the schema does end the write: the \<open>type\<close> of the first entity is
  null, the join over it raises outside the \<open>try\<close>, and the second entity is not written.
\<close>

lemma build_graph_null_type_aborts:
  "build_graph (\<lambda>g q. (Suc g, True)) (0::nat)
     (JObj
       [(''entities'', JArr
          [JObj [(''id'', JStr ''elias''), (''type'', JNull)],
           JObj [(''id'', JStr ''clara''), (''type'', JStr ''Person'')]]),
        (''relationships'', JArr [])])
     False
   = Inl (TypeError, \<lparr>graph = 0, issued = [], printed = []\<rparr>)"
  by (simp add: writer_simps)

text \<open>The delta of the typed pipeline, written as the dictionary it is.\<close>

lemma build_graph_typed_delta:
  "build_graph (\<lambda>g q. (Suc g, True)) (0::nat)
     (result_json
        \<lparr>entities = [\<lparr>e_id = Some ''elias'', e_type = Some ''Person'', e_name = Some ''Elias'',
                       e_properties = []\<rparr>],
         relationships = []\<rparr>)
     False
   = Inr \<lparr>graph = 1,
          issued = [(MergeEntity ''Person'' (JStr ''elias'')
                       [(''id'', JStr ''elias''), (''name'', JStr ''Elias'')], True)],
          printed = []\<rparr>"
  by (simp add: writer_simps result_json_def entity_json_def)

section \<open>Properties of the adaptive script\<close>

lemma extraction_stage_leaves_merged_data_unbound:
  "extraction_stage env load_data save_data = Inr vars \<Longrightarrow> merged_data vars = None"
  by (auto simp: extraction_stage_def split: option.splits sum.splits if_splits)

lemma post_extraction_stage_unbound:
  "merged_data vars = None \<Longrightarrow>
   post_extraction_stage gq g vars clear_existing =
     (Some UnboundLocalError, None, \<lparr>graph = g, issued = [], printed = []\<rparr>)"
  by (simp add: post_extraction_stage_def read_local_def)

lemma process_document_to_graph_cases:
  "process_document_to_graph gq g env clear_existing save_data load_data =
     (let st0 = \<lparr>graph = g, issued = [], printed = []\<rparr> in
      case log_open env of
        Some e \<Rightarrow> \<lparr>raised = Some e, error_printed = None, merged_at_end = None, writer = st0\<rparr>
      | None \<Rightarrow>
          (case extraction_stage env load_data save_data of
             Inl e \<Rightarrow>
               if is_Exception e
               then \<lparr>raised = None, error_printed = Some e, merged_at_end = None, writer = st0\<rparr>
               else \<lparr>raised = Some e, error_printed = None, merged_at_end = None, writer = st0\<rparr>
           | Inr vars \<Rightarrow>
               \<lparr>raised = None, error_printed = Some UnboundLocalError, merged_at_end = None,
                writer = st0\<rparr>))"
proof (cases "log_open env")
  case (Some e)
  then show ?thesis by (simp add: process_document_to_graph_def)
next
  case None
  show ?thesis
  proof (cases "extraction_stage env load_data save_data")
    case (Inl e)
    with None show ?thesis by (simp add: process_document_to_graph_def)
  next
    case (Inr vars)
    then have "merged_data vars = None"
      by (rule extraction_stage_leaves_merged_data_unbound)
    then have "post_extraction_stage gq g vars clear_existing =
        (Some UnboundLocalError, None, \<lparr>graph = g, issued = [], printed = []\<rparr>)"
      by (rule post_extraction_stage_unbound)
    with None Inr show ?thesis by (simp add: process_document_to_graph_def)
  qed
qed

text \<open>
  Claim C3. In the adaptive script, whatever the store, the environment and the flags
  are, \<open>process_document_to_graph\<close> sends no statement to the graph store, leaves the
  store as it was and never assigns \<open>merged_data\<close>: the merge, \<open>build_graph\<close> and the
  verification are never reached. Every call that gets through the extraction stage
  (the log file opens, and connection, loading, extraction and saving raise nothing) reads
  \<open>merged_data\<close> unbound; the UnboundLocalError is caught and printed by the handler of
  the function, which then returns normally.
\<close>

theorem merged_data_read_before_assignment:
  "issued (writer (process_document_to_graph gq g env clear_existing save_data load_data)) = [] \<and>
   graph (writer (process_document_to_graph gq g env clear_existing save_data load_data)) = g \<and>
   merged_at_end (process_document_to_graph gq g env clear_existing save_data load_data) = None \<and>
   (log_open env = None \<and> extraction_stage env load_data save_data = Inr vars \<longrightarrow>
      error_printed (process_document_to_graph gq g env clear_existing save_data load_data)
        = Some UnboundLocalError \<and>
      raised (process_document_to_graph gq g env clear_existing save_data load_data) = None)"
  unfolding process_document_to_graph_cases
  by (simp add: Let_def split: option.splits sum.splits)

text \<open>A run whose extraction yields one chunk result with one entity.\<close>

theorem merged_data_read_before_assignment_witness:
  "log_open \<lparr>log_open = None, connect = None, loaded = Inr [],
      processed = Inr [\<lparr>entities = [\<lparr>e_id = Some ''elias'', e_type = Some ''Person'',
                                    e_name = Some ''Elias'', e_properties = []\<rparr>],
                        relationships = []\<rparr>],
      saved = None\<rparr> = None \<and>
   extraction_stage \<lparr>log_open = None, connect = None, loaded = Inr [],
      processed = Inr [\<lparr>entities = [\<lparr>e_id = Some ''elias'', e_type = Some ''Person'',
                                    e_name = Some ''Elias'', e_properties = []\<rparr>],
                        relationships = []\<rparr>],
      saved = None\<rparr> False False
     = Inr \<lparr>all_extracted_data = [\<lparr>entities = [\<lparr>e_id = Some ''elias'', e_type = Some ''Person'',
                                    e_name = Some ''Elias'', e_properties = []\<rparr>],
                        relationships = []\<rparr>], merged_data = None\<rparr> \<and>
   process_document_to_graph (\<lambda>g q. (Suc g, True)) (0::nat)
     \<lparr>log_open = None, connect = None, loaded = Inr [],
      processed = Inr [\<lparr>entities = [\<lparr>e_id = Some ''elias'', e_type = Some ''Person'',
                                    e_name = Some ''Elias'', e_properties = []\<rparr>],
                        relationships = []\<rparr>],
      saved = None\<rparr> True False False
     = \<lparr>raised = None, error_printed = Some UnboundLocalError, merged_at_end = None,
        writer = \<lparr>graph = 0, issued = [], printed = []\<rparr>\<rparr>"
  using merged_data_read_before_assignment [where gq = "\<lambda>g q. (Suc g, True)" and g = "0::nat"
      and clear_existing = True and save_data = False and load_data = False
      and env = "\<lparr>log_open = None, connect = None, loaded = Inr [],
      processed = Inr [\<lparr>entities = [\<lparr>e_id = Some ''elias'', e_type = Some ''Person'',
                                    e_name = Some ''Elias'', e_properties = []\<rparr>],
                        relationships = []\<rparr>],
      saved = None\<rparr>"
      and vars = "\<lparr>all_extracted_data = [\<lparr>entities = [\<lparr>e_id = Some ''elias'', e_type = Some ''Person'',
                                    e_name = Some ''Elias'', e_properties = []\<rparr>],
                        relationships = []\<rparr>], merged_data = None\<rparr>"]
  by (simp add: extraction_stage_def process_document_to_graph_def post_extraction_stage_def
      read_local_def)

section \<open>Exit status\<close>





section \<open>Properties of the extraction call\<close>



















section \<open>Properties of the rule-based detection\<close>

lemma lower_labels:
  "lower ''Person'' = ''person''" "lower ''person'' = ''person''" "lower ''Vehicle'' = ''vehicle''"
  by (simp_all add: lower_def lower_char_def ascii_upper_def ascii_lower_def)

text \<open>
  Claim C8. On the labels \<open>Person\<close>, \<open>person\<close>, \<open>Vehicle\<close>, whatever their node
  counts are, \<open>prefilter_duplicate_entity_types\<close> produces exactly one group; its members
  are \<open>Person\<close> and \<open>person\<close>, and so no group contains \<open>Vehicle\<close>. The same holds
  for \<open>find_case_insensitive_duplicates\<close> on these labels.
\<close>

theorem person_vehicle_detection:
  "map duplicate_types (prefilter_duplicate_entity_types
     [\<lparr>label = ''Person'', count = c1\<rparr>, \<lparr>label = ''person'', count = c2\<rparr>,
      \<lparr>label = ''Vehicle'', count = c3\<rparr>]) = [[''Person'', ''person'']] \<and>
   map duplicate_types (find_case_insensitive_duplicates [''Person'', ''person'', ''Vehicle''])
     = [[''Person'', ''person'']]"
  by (simp add: prefilter_duplicate_entity_types_def find_case_insensitive_duplicates_def
      label_map_def singular_plural_pairs_def lower_labels)

text \<open>With 3, 5 and 2 nodes the group recommends keeping the more populous \<open>person\<close>.\<close>

theorem person_vehicle_detection_witness:
  "prefilter_duplicate_entity_types
     [\<lparr>label = ''Person'', count = 3\<rparr>, \<lparr>label = ''person'', count = 5\<rparr>,
      \<lparr>label = ''Vehicle'', count = 2\<rparr>]
   = [\<lparr>duplicate_types = [''Person'', ''person''],
       reasoning = CaseVariation [''Person'', ''person''],
       keep_type = ''person''\<rparr>]"
  using person_vehicle_detection [of 3 5 2]
  by (simp add: prefilter_duplicate_entity_types_def label_map_def singular_plural_pairs_def
      max_by_def count_of_def lower_labels)

section \<open>Properties of the execution of a resolution plan\<close>

subsection \<open>The events of the three loops\<close>

lemma execute_cypher_query_trace:
  "execute_cypher_query run st j q w = ((rows, ok), w1) \<Longrightarrow>
   trace w1 = trace w @ [Ran st j q ok]"
  by (auto simp: execute_cypher_query_def Let_def split: prod.splits)

lemma input_trace:
  "input st j w = Inr (answer, w1) \<Longrightarrow> trace w1 = trace w @ [Answered st j answer]"
  by (auto simp: input_def split: list.splits)

text \<open>
  A loop over validations that returns: its events belong to its stage, and an answer
  other than \<open>y\<close> ended it by a rejection at that step.
\<close>

lemma run_validation_events:
  "run_validation run st steps j results w = Inr (ending, results', w') \<Longrightarrow>
   \<exists>evs. trace w' = trace w @ evs \<and>
         (\<forall>e \<in> set evs. stage_of e = st) \<and>
         (\<forall>k a. Answered st k a \<in> set evs \<and> lower a \<noteq> ''y'' \<longrightarrow> ending = Rejected k)"
proof (induction steps arbitrary: j results w)
  case Nil
  then show ?case by simp
next
  case (Cons validation rest)
  from Cons.prems obtain v where v: "the_dict validation = Inr v"
    by (cases "the_dict validation") simp_all
  obtain rows ok w1 where q:
    "execute_cypher_query run st (j + 1) (get_or (map_of v ''query'') (JStr [])) w = ((rows, ok), w1)"
    by (metis prod.exhaust)
  note t1 = execute_cypher_query_trace [OF q]
  show ?case
  proof (cases ok)
    case False
    with Cons.prems v q have "w' = w1" by simp
    with t1 show ?thesis by auto
  next
    case True
    show ?thesis
    proof (cases "input st (j + 1) w1")
      case (Inl e)
      with Cons.prems v q True show ?thesis by simp
    next
      case (Inr aw)
      obtain answer w2 where aw: "aw = (answer, w2)" by (cases aw)
      from Inr aw have t2: "trace w2 = trace w1 @ [Answered st (j + 1) answer]"
        by (simp add: input_trace)
      show ?thesis
      proof (cases "lower answer = ''y''")
        case False
        with Cons.prems v q True Inr aw have "w' = w2" "ending = Rejected (j + 1)"
          by (simp_all add: Let_def)
        with t1 t2 show ?thesis by auto
      next
        case yes: True
        from Cons.prems v q True Inr aw yes obtain results2 where
          "run_validation run st rest (j + 1) results2 w2 = Inr (ending, results', w')"
          by (simp add: Let_def)
        from Cons.IH [OF this] obtain evs where
          evs: "trace w' = trace w2 @ evs" "\<forall>e \<in> set evs. stage_of e = st"
            "\<forall>k a. Answered st k a \<in> set evs \<and> lower a \<noteq> ''y'' \<longrightarrow> ending = Rejected k"
          by blast
        let ?evs = "[Ran st (j + 1) (get_or (map_of v ''query'') (JStr [])) ok,
                     Answered st (j + 1) answer] @ evs"
        have "trace w' = trace w @ ?evs" using evs(1) t1 t2 by simp
        moreover have "\<forall>e \<in> set ?evs. stage_of e = st" using evs(2) by simp
        moreover have "\<forall>k a. Answered st k a \<in> set ?evs \<and> lower a \<noteq> ''y'' \<longrightarrow> ending = Rejected k"
          using evs(3) yes by auto
        ultimately show ?thesis by blast
      qed
    qed
  qed
qed

text \<open>A loop over validations that raises: every answer it read was \<open>y\<close>.\<close>

lemma run_validation_raise_events:
  "run_validation run st steps j results w = Inl (x, w') \<Longrightarrow>
   \<exists>evs. trace w' = trace w @ evs \<and>
         (\<forall>e \<in> set evs. stage_of e = st) \<and>
         (\<forall>k a. Answered st k a \<in> set evs \<longrightarrow> lower a = ''y'')"
proof (induction steps arbitrary: j results w)
  case Nil
  then show ?case by simp
next
  case (Cons validation rest)
  show ?case
  proof (cases "the_dict validation")
    case (Inl e)
    with Cons.prems have "w' = w" by simp
    then show ?thesis by simp
  next
    case (Inr v)
    obtain rows ok w1 where q:
      "execute_cypher_query run st (j + 1) (get_or (map_of v ''query'') (JStr [])) w = ((rows, ok), w1)"
      by (metis prod.exhaust)
    note t1 = execute_cypher_query_trace [OF q]
    show ?thesis
    proof (cases ok)
      case False
      with Cons.prems Inr q show ?thesis by simp
    next
      case True
      show ?thesis
      proof (cases "input st (j + 1) w1")
        case (Inl e)
        with Cons.prems Inr q True have "w' = w1" by simp
        with t1 show ?thesis by auto
      next
        case inp: (Inr aw)
        obtain answer w2 where aw: "aw = (answer, w2)" by (cases aw)
        from inp aw have t2: "trace w2 = trace w1 @ [Answered st (j + 1) answer]"
          by (simp add: input_trace)
        show ?thesis
        proof (cases "lower answer = ''y''")
          case False
          with Cons.prems Inr q True inp aw show ?thesis by (simp add: Let_def)
        next
          case yes: True
          from Cons.prems Inr q True inp aw yes obtain results2 where
            "run_validation run st rest (j + 1) results2 w2 = Inl (x, w')"
            by (simp add: Let_def)
          from Cons.IH [OF this] obtain evs where
            evs: "trace w' = trace w2 @ evs" "\<forall>e \<in> set evs. stage_of e = st"
              "\<forall>k a. Answered st k a \<in> set evs \<longrightarrow> lower a = ''y''"
            by blast
          let ?evs = "[Ran st (j + 1) (get_or (map_of v ''query'') (JStr [])) ok,
                       Answered st (j + 1) answer] @ evs"
          have "trace w' = trace w @ ?evs" using evs(1) t1 t2 by simp
          moreover have "\<forall>e \<in> set ?evs. stage_of e = st" using evs(2) by simp
          moreover have "\<forall>k a. Answered st k a \<in> set ?evs \<longrightarrow> lower a = ''y''"
            using evs(3) yes by auto
          ultimately show ?thesis by blast
        qed
      qed
    qed
  qed
qed

text \<open>The loop over the merge operations, returning or raising: its events are its own.\<close>

lemma run_merge_operations_world:
  "\<exists>evs. trace (case run_merge_operations run ops j results w of
                  Inl (x, w') \<Rightarrow> w' | Inr (ending, results', w') \<Rightarrow> w') = trace w @ evs \<and>
         (\<forall>e \<in> set evs. stage_of e = MergeOperation)"
proof (induction ops arbitrary: j results w)
  case Nil
  show ?case by simp
next
  case (Cons operation rest)
  show ?case
  proof (cases "the_dict operation")
    case (Inl e)
    then show ?thesis by simp
  next
    case v: (Inr v)
    let ?confirm = "truthy (get_or (map_of v ''requires_confirmation'') (JBool True))"
    define asked where "asked =
       (if ?confirm
        then (case input MergeOperation (j + 1) w of
                Inl e \<Rightarrow> Inl (e, w)
              | Inr (answer, w1) \<Rightarrow> Inr (Some (lower answer = ''y''), w1))
        else Inr (None, w))"
    show ?thesis
    proof (cases asked)
      case (Inl ew)
      then have "snd ew = w" by (auto simp: asked_def split: if_splits sum.splits)
      with Inl v show ?thesis by (auto simp: asked_def [symmetric] Let_def split: prod.splits)
    next
      case (Inr aw)
      obtain approved w1 where aw: "aw = (approved, w1)" by (cases aw)
      have "\<exists>evs1. trace w1 = trace w @ evs1 \<and> (\<forall>e \<in> set evs1. stage_of e = MergeOperation)"
      proof (cases ?confirm)
        case False
        with Inr aw have "w1 = w" by (simp add: asked_def)
        then show ?thesis by simp
      next
        case True
        with Inr aw obtain answer where "input MergeOperation (j + 1) w = Inr (answer, w1)"
          by (auto simp: asked_def split: sum.splits)
        then have "trace w1 = trace w @ [Answered MergeOperation (j + 1) answer]"
          by (rule input_trace)
        then show ?thesis by simp
      qed
      then obtain evs1 where evs1: "trace w1 = trace w @ evs1"
        "\<forall>e \<in> set evs1. stage_of e = MergeOperation" by blast
      show ?thesis
      proof (cases "approved = Some False")
        case True
        with v Inr aw evs1 show ?thesis by (simp add: asked_def [symmetric] Let_def)
      next
        case False
        obtain rows ok w2 where q:
          "execute_cypher_query run MergeOperation (j + 1) (get_or (map_of v ''query'') (JStr [])) w1
             = ((rows, ok), w2)"
          by (metis prod.exhaust)
        note t2 = execute_cypher_query_trace [OF q]
        show ?thesis
        proof (cases ok)
          case no: False
          with v Inr aw False q evs1 t2 show ?thesis
            by (simp add: asked_def [symmetric] Let_def)
        next
          case ok: True
          from v Inr aw False q ok obtain results2 where step:
            "run_merge_operations run (operation # rest) j results w
             = run_merge_operations run rest (j + 1) results2 w2"
            by (simp add: asked_def [symmetric] Let_def)
          from Cons.IH [of "j + 1" results2 w2] obtain evs where
            "trace (case run_merge_operations run rest (j + 1) results2 w2 of
                  Inl (x, w') \<Rightarrow> w' | Inr (ending, results', w') \<Rightarrow> w') = trace w2 @ evs"
            "\<forall>e \<in> set evs. stage_of e = MergeOperation"
            by blast
          with evs1 t2 step have "trace (case run_merge_operations run (operation # rest) j results w of
                  Inl (x, w') \<Rightarrow> w' | Inr (ending, results', w') \<Rightarrow> w')
               = trace w @ (evs1 @ [Ran MergeOperation (j + 1)
                 (get_or (map_of v ''query'') (JStr [])) ok] @ evs)"
            and "\<forall>e \<in> set (evs1 @ [Ran MergeOperation (j + 1)
                (get_or (map_of v ''query'') (JStr [])) ok] @ evs). stage_of e = MergeOperation"
            by auto
          then show ?thesis by blast
        qed
      qed
    qed
  qed
qed

lemma run_validation_world:
  "\<exists>evs. trace (case run_validation run st steps j results w of
                  Inl (x, w') \<Rightarrow> w' | Inr (ending, results', w') \<Rightarrow> w') = trace w @ evs \<and>
         (\<forall>e \<in> set evs. stage_of e = st)"
proof (cases "run_validation run st steps j results w")
  case (Inl xw)
  obtain x w' where xw: "xw = (x, w')" by (cases xw)
  from run_validation_raise_events [of run st steps j results w x w'] Inl xw
  show ?thesis by auto
next
  case (Inr r)
  obtain ending results' w' where r: "r = (ending, results', w')" by (cases r)
  from run_validation_events [of run st steps j results w ending results' w'] Inr r
  show ?thesis by auto
qed

text \<open>What follows the validation before the merge adds no event of that stage.\<close>

lemma execute_group_after_pre_validation:
  assumes it: "py_iter (get_or (map_of plan ''pre_merge_validation'') (JArr [])) = Inr pre_steps"
    and pre: "run_validation run PreValidation pre_steps 0 [] w = Inr (pre_end, pre_results, w1)"
  shows "\<exists>evs. trace (world_after (execute_group run plan g er w)) = trace w1 @ evs \<and>
               (\<forall>e \<in> set evs. stage_of e \<noteq> PreValidation)"
proof (cases pre_end)
  case (Failed k)
  with it pre have "world_after (execute_group run plan g er w) = w1"
    by (simp add: execute_group_def world_after_def)
  then show ?thesis by simp
next
  case (Rejected k)
  with it pre have "world_after (execute_group run plan g er w) = w1"
    by (simp add: execute_group_def world_after_def)
  then show ?thesis by simp
next
  case Passed
  show ?thesis
  proof (cases "py_iter (get_or (map_of plan ''merge_operations'') (JArr []))")
    case (Inl e)
    with it pre Passed have "world_after (execute_group run plan g er w) = w1"
      by (simp add: execute_group_def world_after_def)
    then show ?thesis by simp
  next
    case ops: (Inr operations)
    from run_merge_operations_world [of run operations 0 "[]" w1] obtain evs2 where
      evs2: "trace (case run_merge_operations run operations 0 [] w1 of
                  Inl (x, w') \<Rightarrow> w' | Inr (ending, results', w') \<Rightarrow> w') = trace w1 @ evs2"
        "\<forall>e \<in> set evs2. stage_of e = MergeOperation"
      by blast
    show ?thesis
    proof (cases "run_merge_operations run operations 0 [] w1")
      case (Inl xw)
      obtain x w2 where xw: "xw = (x, w2)" by (cases xw)
      from it pre Passed ops Inl xw have "world_after (execute_group run plan g er w) = w2"
        by (simp add: execute_group_def world_after_def)
      with evs2 Inl xw show ?thesis by auto
    next
      case (Inr m)
      obtain merge_end op_results w2 where m: "m = (merge_end, op_results, w2)"
        by (cases m)
      from evs2 Inr m have t2: "trace w2 = trace w1 @ evs2" by simp
      show ?thesis
      proof (cases merge_end)
        case (Failed k)
        with it pre Passed ops Inr m have "world_after (execute_group run plan g er w) = w2"
          by (simp add: execute_group_def world_after_def)
        with evs2(2) t2 show ?thesis by auto
      next
        case (Rejected k)
        with it pre Passed ops Inr m have "world_after (execute_group run plan g er w) = w2"
          by (simp add: execute_group_def world_after_def)
        with evs2(2) t2 show ?thesis by auto
      next
        case merged: Passed
        show ?thesis
        proof (cases "py_iter (get_or (map_of plan ''post_merge_validation'') (JArr []))")
          case (Inl e)
          with it pre Passed ops Inr m merged
          have "world_after (execute_group run plan g er w) = w2"
            by (simp add: execute_group_def world_after_def)
          with evs2(2) t2 show ?thesis by auto
        next
          case post: (Inr post_steps)
          from run_validation_world [of run PostValidation post_steps 0 "[]" w2] obtain evs3 where
            evs3: "trace (case run_validation run PostValidation post_steps 0 [] w2 of
                  Inl (x, w') \<Rightarrow> w' | Inr (ending, results', w') \<Rightarrow> w') = trace w2 @ evs3"
              "\<forall>e \<in> set evs3. stage_of e = PostValidation"
            by blast
          have "world_after (execute_group run plan g er w)
              = (case run_validation run PostValidation post_steps 0 [] w2 of
                  Inl (x, w') \<Rightarrow> w' | Inr (ending, results', w') \<Rightarrow> w')"
          proof (cases "run_validation run PostValidation post_steps 0 [] w2")
            case (Inl xw)
            with it pre Passed ops Inr m merged post show ?thesis
              by (cases xw) (simp add: execute_group_def world_after_def)
          next
            case pv: (Inr r)
            obtain post_end post_results w3 where "r = (post_end, post_results, w3)"
              by (cases r)
            with it pre Passed ops Inr m merged post pv show ?thesis
              by (cases post_end) (simp_all add: execute_group_def world_after_def)
          qed
          with evs3 t2 evs2(2)
          have "trace (world_after (execute_group run plan g er w)) = trace w1 @ (evs2 @ evs3)"
            and "\<forall>e \<in> set (evs2 @ evs3). stage_of e \<noteq> PreValidation"
            by auto
          then show ?thesis by blast
        qed
      qed
    qed
  qed
qed

lemma lower_n: "lower ''n'' \<noteq> ''y''"
  by (simp add: lower_def lower_char_def ascii_upper_def ascii_lower_def)

lemma lower_answers: "lower ''y'' = ''y''" "lower ''Y'' = ''y''" "lower ''n'' = ''n''"
  by (simp_all add: lower_def lower_char_def ascii_upper_def ascii_lower_def)

text \<open>
  An entry at whose validation before the merge the operator answered \<open>n\<close> at step \<open>j\<close>:
  the loop over the validations returned with this rejection, and the world it left is the
  one the entry leaves.
\<close>

lemma rejected_before_merge:
  assumes tr: "trace (world_after (execute_group run plan g er w)) = trace w @ evs"
    and no: "Answered PreValidation j ''n'' \<in> set evs"
  shows "\<exists>pre_steps pre_results w1.
           py_iter (get_or (map_of plan ''pre_merge_validation'') (JArr [])) = Inr pre_steps \<and>
           run_validation run PreValidation pre_steps 0 [] w
             = Inr (Rejected j, pre_results, w1) \<and>
           trace w1 = trace w @ evs \<and>
           (\<forall>e \<in> set evs. stage_of e = PreValidation)"
proof (cases "py_iter (get_or (map_of plan ''pre_merge_validation'') (JArr []))")
  case (Inl e)
  then have "world_after (execute_group run plan g er w) = w"
    by (simp add: execute_group_def world_after_def)
  with tr no show ?thesis by simp
next
  case it: (Inr pre_steps)
  show ?thesis
  proof (cases "run_validation run PreValidation pre_steps 0 [] w")
    case (Inl xw)
    obtain x w1 where xw: "xw = (x, w1)" by (cases xw)
    from it Inl xw have "world_after (execute_group run plan g er w) = w1"
      by (simp add: execute_group_def world_after_def)
    moreover from run_validation_raise_events [of run PreValidation pre_steps 0 "[]" w x w1] Inl xw
    obtain evs1 where "trace w1 = trace w @ evs1"
      "\<forall>k a. Answered PreValidation k a \<in> set evs1 \<longrightarrow> lower a = ''y''"
      by auto
    ultimately have "lower ''n'' = ''y''" using tr no by auto
    with lower_n show ?thesis by simp
  next
    case (Inr r)
    obtain pre_end pre_results w1 where r: "r = (pre_end, pre_results, w1)" by (cases r)
    from Inr r have pre: "run_validation run PreValidation pre_steps 0 [] w
        = Inr (pre_end, pre_results, w1)" by simp
    from run_validation_events [OF pre] obtain evs1 where
      evs1: "trace w1 = trace w @ evs1" "\<forall>e \<in> set evs1. stage_of e = PreValidation"
        "\<forall>k a. Answered PreValidation k a \<in> set evs1 \<and> lower a \<noteq> ''y'' \<longrightarrow> pre_end = Rejected k"
      by blast
    from execute_group_after_pre_validation [OF it pre, of g er] obtain evs2 where
      evs2: "trace (world_after (execute_group run plan g er w)) = trace w1 @ evs2"
        "\<forall>e \<in> set evs2. stage_of e \<noteq> PreValidation"
      by blast
    from tr evs1(1) evs2(1) have split: "evs = evs1 @ evs2" by simp
    from no evs2(2) split have "Answered PreValidation j ''n'' \<in> set evs1" by auto
    with evs1(3) lower_n have rej: "pre_end = Rejected j" by blast
    with it pre have "world_after (execute_group run plan g er w) = w1"
      by (simp add: execute_group_def world_after_def)
    with tr evs1(1) have "evs = evs1" by simp
    with it pre rej evs1 show ?thesis by simp
  qed
qed

text \<open>The report only grows: an entry appends one result, the loop appends results.\<close>

lemma execute_group_results:
  "execute_group run plan g er w = Inr (er', w') \<Longrightarrow>
   \<exists>gr. group_results er' = group_results er @ [gr]"
  by (auto simp: execute_group_def Let_def split: sum.splits prod.splits loop_end.splits)

lemma run_plans_results:
  "run_plans run lookup plans er w = Inr (er', w') \<Longrightarrow>
   \<exists>more. group_results er' = group_results er @ more"
proof (induction plans arbitrary: er w)
  case Nil
  then show ?case by simp
next
  case (Cons plan rest)
  show ?case
  proof (cases "find_group lookup plan")
    case (Inl e)
    with Cons.prems show ?thesis by simp
  next
    case (Inr found)
    show ?thesis
    proof (cases found)
      case None
      with Inr Cons.prems have "run_plans run lookup rest er w = Inr (er', w')" by simp
      from Cons.IH [OF this] show ?thesis .
    next
      case (Some pg)
      obtain p g where pg: "pg = (p, g)" by (cases pg)
      show ?thesis
      proof (cases "execute_group run p g er w")
        case (Inl ew)
        with Inr Some pg Cons.prems show ?thesis by simp
      next
        case eg: (Inr r)
        obtain er1 w1 where r: "r = (er1, w1)" by (cases r)
        from eg r execute_group_results obtain gr where
          gr: "group_results er1 = group_results er @ [gr]" by blast
        from Inr Some pg eg r Cons.prems
        have "run_plans run lookup rest er1 w1 = Inr (er', w')" by simp
        from Cons.IH [OF this] obtain more where "group_results er' = group_results er1 @ more"
          by blast
        with gr have "group_results er' = group_results er @ (gr # more)" by simp
        then show ?thesis by blast
      qed
    qed
  qed
qed

subsection \<open>A rejected validation before the merge\<close>

text \<open>
  Claim C7, as the code has it. Take an entry of the plan whose group is found, executed
  from a world \<open>w\<close>, and let \<open>evs\<close> be the events of this execution, however it ended.
  If the operator answered \<open>n\<close> to the prompt of the validation step \<open>j\<close> before the
  merge, then the execution of the entry returned; the result appended to the report in
  progress is that of the group, has the status \<open>pre_validation_rejected\<close>, names the
  step and holds no operation result; the entry is counted as skipped, not as failed or
  successful; every event of the execution belongs to the validation before the merge, so
  no merge operation of the entry was sent to the store or put to the operator; the loop
  goes on with the remaining entries from the state the rejection left; and when the
  remaining entries raise no exception, the report they end with holds the result at its
  place.
\<close>

theorem pre_validation_rejection_skips_group:
  assumes found: "find_group lookup plan = Inr (Some (p, g))"
    and tr: "trace (world_after (execute_group run p g er w)) = trace w @ evs"
    and no: "Answered PreValidation j ''n'' \<in> set evs"
  shows "\<exists>gr er' w'.
           execute_group run p g er w = Inr (er', w') \<and>
           group_results er' = group_results er @ [gr] \<and>
           gr_group_id gr = get_or (map_of g ''group_id'') JNull \<and>
           status gr = PreValidationRejected \<and>
           details gr = [StepRejected PreValidation j] \<and>
           operation_results gr = [] \<and>
           skipped_groups er' = skipped_groups er + 1 \<and>
           failed_groups er' = failed_groups er \<and>
           successful_groups er' = successful_groups er \<and>
           (\<forall>e \<in> set evs. stage_of e = PreValidation) \<and>
           run_plans run lookup (plan # rest) er w = run_plans run lookup rest er' w' \<and>
           (\<forall>report w''. run_plans run lookup rest er' w' = Inr (report, w'') \<longrightarrow>
              take (length (group_results er')) (group_results report) = group_results er @ [gr])"
proof -
  from rejected_before_merge [OF tr no] obtain pre_steps pre_results w1 where
    it: "py_iter (get_or (map_of p ''pre_merge_validation'') (JArr [])) = Inr pre_steps"
    and pre: "run_validation run PreValidation pre_steps 0 [] w = Inr (Rejected j, pre_results, w1)"
    and stages: "\<forall>e \<in> set evs. stage_of e = PreValidation"
    by blast
  define gr where "gr =
     \<lparr>gr_group_id = get_or (map_of g ''group_id'') JNull,
      gr_summary = get_or (map_of g ''group_summary'') JNull, status = PreValidationRejected,
      details = [StepRejected PreValidation j], pre_validation_results = pre_results,
      operation_results = [], post_validation_results = []\<rparr>"
  define er' where "er' = er\<lparr>skipped_groups := skipped_groups er + 1,
      group_results := group_results er @ [gr]\<rparr>"
  from it pre have eg: "execute_group run p g er w = Inr (er', w1)"
    by (simp add: execute_group_def er'_def gr_def)
  have next_entry: "run_plans run lookup (plan # rest) er w = run_plans run lookup rest er' w1"
    using found eg by simp
  have final: "\<forall>report w''. run_plans run lookup rest er' w1 = Inr (report, w'') \<longrightarrow>
      take (length (group_results er')) (group_results report) = group_results er @ [gr]"
  proof (intro allI impI)
    fix report w''
    assume "run_plans run lookup rest er' w1 = Inr (report, w'')"
    from run_plans_results [OF this] obtain more where
      "group_results report = group_results er' @ more" by blast
    then show "take (length (group_results er')) (group_results report) = group_results er @ [gr]"
      by (simp add: er'_def)
  qed
  have "group_results er' = group_results er @ [gr]"
    "gr_group_id gr = get_or (map_of g ''group_id'') JNull"
    "status gr = PreValidationRejected" "details gr = [StepRejected PreValidation j]"
    "operation_results gr = []" "skipped_groups er' = skipped_groups er + 1"
    "failed_groups er' = failed_groups er" "successful_groups er' = successful_groups er"
    by (simp_all add: er'_def gr_def)
  with eg stages next_entry final show ?thesis by blast
qed

lemmas execution_simps =
  execute_resolution_plan_def execute_plans_def execute_group_def execute_cypher_query_def
  input_def find_group_def group_key_def references_absent_group_def world_after_def
  Let_def lower_answers

text \<open>
  A run of claim C7's theorem, with two groups. The operator rejects the only validation
  of the first: its merge operation, which needs no confirmation, is not run, and the
  second group is resolved.
\<close>

theorem pre_validation_rejection_skips_group_witness:
  "find_group
     [(JStr ''g1'', JObj [(''group_id'', JStr ''g1''), (''group_summary'', JStr ''Person and person'')]),
      (JStr ''g2'', JObj [(''group_id'', JStr ''g2''), (''group_summary'', JStr ''Weapon and Weapons'')])]
     (JObj [(''group_id'', JStr ''g1''),
            (''pre_merge_validation'', JArr [JObj [(''query'', JStr ''MATCH (n:person) RETURN count(n)'')]]),
            (''merge_operations'',
               JArr [JObj [(''query'', JStr ''MATCH (n:person) SET n:Person REMOVE n:person''),
                           (''requires_confirmation'', JBool False)]])])
   = Inr (Some ([(''group_id'', JStr ''g1''),
                 (''pre_merge_validation'', JArr [JObj [(''query'', JStr ''MATCH (n:person) RETURN count(n)'')]]),
                 (''merge_operations'',
                    JArr [JObj [(''query'', JStr ''MATCH (n:person) SET n:Person REMOVE n:person''),
                                (''requires_confirmation'', JBool False)]])],
                [(''group_id'', JStr ''g1''), (''group_summary'', JStr ''Person and person'')])) \<and>
   execute_group (\<lambda>g q. (Suc g, [JStr ''row''], True))
     [(''group_id'', JStr ''g1''),
      (''pre_merge_validation'', JArr [JObj [(''query'', JStr ''MATCH (n:person) RETURN count(n)'')]]),
      (''merge_operations'',
         JArr [JObj [(''query'', JStr ''MATCH (n:person) SET n:Person REMOVE n:person''),
                     (''requires_confirmation'', JBool False)]])]
     [(''group_id'', JStr ''g1''), (''group_summary'', JStr ''Person and person'')]
     \<lparr>total_groups = 2, successful_groups = 0, failed_groups = 0, skipped_groups = 0,
      group_results = []\<rparr>
     \<lparr>store = 0::nat, stdin = [''n''], trace = []\<rparr>
   = Inr (\<lparr>total_groups = 2, successful_groups = 0, failed_groups = 0, skipped_groups = 1,
           group_results =
             [\<lparr>gr_group_id = JStr ''g1'', gr_summary = JStr ''Person and person'',
               status = PreValidationRejected, details = [StepRejected PreValidation 1],
               pre_validation_results =
                 [\<lparr>v_step = 1, v_description = JStr ''Unknown check'',
                   v_query = JStr ''MATCH (n:person) RETURN count(n)'', v_success = True,
                   v_result_count = 1, v_sample_results = [JStr ''row''],
                   v_user_approved = Some False\<rparr>],
               operation_results = [], post_validation_results = []\<rparr>]\<rparr>,
          \<lparr>store = 1, stdin = [],
           trace = [Ran PreValidation 1 (JStr ''MATCH (n:person) RETURN count(n)'') True,
                    Answered PreValidation 1 ''n'']\<rparr>) \<and>
   map status (group_results (fst (projr
     (run_plans (\<lambda>g q. (Suc g, [JStr ''row''], True))
        [(JStr ''g1'', JObj [(''group_id'', JStr ''g1''), (''group_summary'', JStr ''Person and person'')]),
         (JStr ''g2'', JObj [(''group_id'', JStr ''g2''), (''group_summary'', JStr ''Weapon and Weapons'')])]
        [JObj [(''group_id'', JStr ''g1''),
               (''pre_merge_validation'', JArr [JObj [(''query'', JStr ''MATCH (n:person) RETURN count(n)'')]]),
               (''merge_operations'',
                  JArr [JObj [(''query'', JStr ''MATCH (n:person) SET n:Person REMOVE n:person''),
                              (''requires_confirmation'', JBool False)]])],
         JObj [(''group_id'', JStr ''g2''),
               (''merge_operations'',
                  JArr [JObj [(''query'', JStr ''MATCH (n:Weapons) SET n:Weapon REMOVE n:Weapons''),
                              (''requires_confirmation'', JBool False)]])]]
        \<lparr>total_groups = 2, successful_groups = 0, failed_groups = 0, skipped_groups = 0,
         group_results = []\<rparr>
        \<lparr>store = 0::nat, stdin = [''n''], trace = []\<rparr>))))
   = [PreValidationRejected, Success]"
proof -
  let ?run = "\<lambda>(g::nat) (q::json). (Suc g, [JStr ''row''], True)"
  let ?g1 = "[(''group_id'', JStr ''g1''), (''group_summary'', JStr ''Person and person'')]"
  let ?g2 = "[(''group_id'', JStr ''g2''), (''group_summary'', JStr ''Weapon and Weapons'')]"
  let ?lookup = "[(JStr ''g1'', JObj ?g1), (JStr ''g2'', JObj ?g2)]"
  let ?p1 = "[(''group_id'', JStr ''g1''),
      (''pre_merge_validation'', JArr [JObj [(''query'', JStr ''MATCH (n:person) RETURN count(n)'')]]),
      (''merge_operations'',
         JArr [JObj [(''query'', JStr ''MATCH (n:person) SET n:Person REMOVE n:person''),
                     (''requires_confirmation'', JBool False)]])]"
  let ?p2 = "[(''group_id'', JStr ''g2''),
               (''merge_operations'',
                  JArr [JObj [(''query'', JStr ''MATCH (n:Weapons) SET n:Weapon REMOVE n:Weapons''),
                              (''requires_confirmation'', JBool False)]])]"
  let ?er = "\<lparr>total_groups = 2, successful_groups = 0, failed_groups = 0, skipped_groups = 0,
      group_results = []\<rparr>"
  let ?w = "\<lparr>store = 0::nat, stdin = [''n''], trace = []\<rparr>"
  let ?er' = "\<lparr>total_groups = 2, successful_groups = 0, failed_groups = 0, skipped_groups = 1,
           group_results =
             [\<lparr>gr_group_id = JStr ''g1'', gr_summary = JStr ''Person and person'',
               status = PreValidationRejected, details = [StepRejected PreValidation 1],
               pre_validation_results =
                 [\<lparr>v_step = 1, v_description = JStr ''Unknown check'',
                   v_query = JStr ''MATCH (n:person) RETURN count(n)'', v_success = True,
                   v_result_count = 1, v_sample_results = [JStr ''row''],
                   v_user_approved = Some False\<rparr>],
               operation_results = [], post_validation_results = []\<rparr>]\<rparr>"
  let ?evs = "[Ran PreValidation 1 (JStr ''MATCH (n:person) RETURN count(n)'') True,
                    Answered PreValidation 1 ''n'']"
  let ?w' = "\<lparr>store = 1::nat, stdin = [], trace = ?evs\<rparr>"
  have found: "find_group ?lookup (JObj ?p1) = Inr (Some (?p1, ?g1))"
    by (simp add: find_group_def)
  have eg: "execute_group ?run ?p1 ?g1 ?er ?w = Inr (?er', ?w')"
    by (simp add: execution_simps)
  have tr: "trace (world_after (execute_group ?run ?p1 ?g1 ?er ?w)) = trace ?w @ ?evs"
    by (simp add: eg world_after_def)
  have no: "Answered PreValidation 1 ''n'' \<in> set ?evs"
    by simp
  from pre_validation_rejection_skips_group
    [where lookup = ?lookup and plan = "JObj ?p1" and rest = "[JObj ?p2]", OF found tr no] eg
  have "run_plans ?run ?lookup [JObj ?p1, JObj ?p2] ?er ?w
      = run_plans ?run ?lookup [JObj ?p2] ?er' ?w'"
    by auto
  then have "map status (group_results (fst (projr
      (run_plans ?run ?lookup [JObj ?p1, JObj ?p2] ?er ?w))))
      = [PreValidationRejected, Success]"
    by (simp add: execution_simps)
  with found eg show ?thesis by simp
qed

text \<open>
  Claim C7 says that after the rejection no merge operation of that group is ever
  executed. The rejection ends the entry, not the group: here the plan holds two entries
  for the group \<open>g1\<close>, the operator rejects the validation of the first, and the merge
  operation of the second, which needs no confirmation, is run on the group all the same.
\<close>

theorem rejected_group_is_merged_by_later_entry:
  "execute_resolution_plan (\<lambda>g q. (Suc g, [JStr ''row''], True))
     (JObj [(''groups'', JArr [JObj [(''group_id'', JStr ''g1''), (''group_summary'', JStr ''Person and person'')]]),
            (''resolution_plan'',
               JArr [JObj [(''group_id'', JStr ''g1''),
                           (''pre_merge_validation'',
                              JArr [JObj [(''query'', JStr ''MATCH (n:person) RETURN count(n)'')]]),
                           (''merge_operations'',
                              JArr [JObj [(''query'', JStr ''MATCH (n:person) SET n:Person REMOVE n:person''),
                                          (''requires_confirmation'', JBool False)]])],
                     JObj [(''group_id'', JStr ''g1''),
                           (''merge_operations'',
                              JArr [JObj [(''query'', JStr ''MATCH (n:person) DETACH DELETE n''),
                                          (''requires_confirmation'', JBool False)]])]])])
     None \<lparr>store = 0::nat, stdin = [''n''], trace = []\<rparr>
   = (True,
      Some \<lparr>total_groups = 1, successful_groups = 1, failed_groups = 0, skipped_groups = 1,
            group_results =
              [\<lparr>gr_group_id = JStr ''g1'', gr_summary = JStr ''Person and person'',
                status = PreValidationRejected, details = [StepRejected PreValidation 1],
                pre_validation_results =
                  [\<lparr>v_step = 1, v_description = JStr ''Unknown check'',
                    v_query = JStr ''MATCH (n:person) RETURN count(n)'', v_success = True,
                    v_result_count = 1, v_sample_results = [JStr ''row''],
                    v_user_approved = Some False\<rparr>],
                operation_results = [], post_validation_results = []\<rparr>,
               \<lparr>gr_group_id = JStr ''g1'', gr_summary = JStr ''Person and person'',
                status = Success, details = [], pre_validation_results = [],
                operation_results =
                  [\<lparr>o_step = 1, o_description = JStr ''Unknown operation'',
                    o_query = JStr ''MATCH (n:person) DETACH DELETE n'',
                    o_requires_confirmation = JBool False, o_executed = True, o_success = True,
                    o_records_affected = 1, o_user_approved = None, o_user_skipped = False\<rparr>],
                post_validation_results = []\<rparr>]\<rparr>,
      \<lparr>store = 2, stdin = [],
       trace = [Ran PreValidation 1 (JStr ''MATCH (n:person) RETURN count(n)'') True,
                Answered PreValidation 1 ''n'',
                Ran MergeOperation 1 (JStr ''MATCH (n:person) DETACH DELETE n'') True]\<rparr>)"
  by (simp add: execution_simps)

text \<open>
  The rejection is recorded in the report in progress. When a later entry raises, here
  an entry that is a string, the function returns \<open>False\<close> and no report.
\<close>

lemma later_exception_loses_report:
  "execute_resolution_plan (\<lambda>g q. (Suc g, [JStr ''row''], True))
     (JObj [(''groups'', JArr [JObj [(''group_id'', JStr ''g1'')]]),
            (''resolution_plan'',
               JArr [JObj [(''group_id'', JStr ''g1''),
                           (''pre_merge_validation'',
                              JArr [JObj [(''query'', JStr ''MATCH (n:person) RETURN count(n)'')]])],
                     JStr ''g2''])])
     None \<lparr>store = 0::nat, stdin = [''n''], trace = []\<rparr>
   = (False, None,
      \<lparr>store = 1, stdin = [],
       trace = [Ran PreValidation 1 (JStr ''MATCH (n:person) RETURN count(n)'') True,
                Answered PreValidation 1 ''n'']\<rparr>)"
  by (simp add: execution_simps)

subsection \<open>Entries without a group\<close>










text \<open>
  A group without \<open>group_id\<close> and an entry without one meet under the key \<open>None\<close>: the
  entry is executed. Its operation, whose \<open>requires_confirmation\<close> is null, is run
  without a question to the operator.
\<close>

lemma entry_without_group_id_is_executed:
  "execute_resolution_plan (\<lambda>g q. (Suc g, [JStr ''row''], True))
     (JObj [(''groups'', JArr [JObj [(''merge_target'', JStr ''Person'')]]),
            (''resolution_plan'',
               JArr [JObj [(''merge_operations'',
                              JArr [JObj [(''query'', JStr ''MATCH (n) DETACH DELETE n''),
                                          (''requires_confirmation'', JNull)]])]])])
     None \<lparr>store = 0::nat, stdin = [], trace = []\<rparr>
   = (True,
      Some \<lparr>total_groups = 1, successful_groups = 1, failed_groups = 0, skipped_groups = 0,
            group_results =
              [\<lparr>gr_group_id = JNull, gr_summary = JNull, status = Success, details = [],
                pre_validation_results = [],
                operation_results =
                  [\<lparr>o_step = 1, o_description = JStr ''Unknown operation'',
                    o_query = JStr ''MATCH (n) DETACH DELETE n'',
                    o_requires_confirmation = JNull, o_executed = True, o_success = True,
                    o_records_affected = 1, o_user_approved = None, o_user_skipped = False\<rparr>],
                post_validation_results = []\<rparr>]\<rparr>,
      \<lparr>store = 1, stdin = [],
       trace = [Ran MergeOperation 1 (JStr ''MATCH (n) DETACH DELETE n'') True]\<rparr>)"
  by (simp add: execution_simps)


end
